theory Spec2Isabelle
  imports Complex_Main
begin

section \<open>JavaScript strings and numbers\<close>

text \<open>
  Strings are lists of characters. The character-level builtins below are written for
  ASCII text: \<open>toUpperCase\<close> and \<open>toLowerCase\<close> map the 26 letters and leave every
  other character alone, and \<open>trim\<close> removes tab, line feed, vertical tab, form feed,
  carriage return and space at both ends. An email that passes the schema's pattern
  (\<^verbatim>\<open>\w\<close>, dot, dash and one at-sign) is such text.
\<close>

definition lowerLetters :: string where
  "lowerLetters = ''abcdefghijklmnopqrstuvwxyz''"

definition upperLetters :: string where
  "upperLetters = ''ABCDEFGHIJKLMNOPQRSTUVWXYZ''"

definition toUpperCase :: "string \<Rightarrow> string" where
  "toUpperCase s =
     map (\<lambda>c. case map_of (zip lowerLetters upperLetters) c of Some u \<Rightarrow> u | None \<Rightarrow> c) s"

definition toLowerCase :: "string \<Rightarrow> string" where
  "toLowerCase s =
     map (\<lambda>c. case map_of (zip upperLetters lowerLetters) c of Some l \<Rightarrow> l | None \<Rightarrow> c) s"

definition isSpace :: "char \<Rightarrow> bool" where
  "isSpace c = (c \<in> set [CHR 0x09, CHR 0x0A, CHR 0x0B, CHR 0x0C, CHR 0x0D, CHR '' ''])"

definition trim :: "string \<Rightarrow> string" where
  "trim s = rev (dropWhile isSpace (rev (dropWhile isSpace s)))"

definition isAscii :: "string \<Rightarrow> bool" where
  "isAscii s = list_all (\<lambda>c. (of_char c :: nat) < 128) s"

text \<open>\<^verbatim>\<open>email.split('@')[0]\<close>: the text before the first at-sign, the whole string when
  there is none.\<close>

definition splitAtSignFirst :: "string \<Rightarrow> string" where
  "splitAtSignFirst s = takeWhile (\<lambda>c. c \<noteq> CHR ''@'') s"

text \<open>\<^verbatim>\<open>Number.prototype.toString\<close> on an integer: its decimal digits, with a sign.\<close>

definition digitChar :: "nat \<Rightarrow> char" where
  "digitChar n = ''0123456789'' ! (n mod 10)"

fun digits :: "nat \<Rightarrow> string" where
  "digits n = (if n < 10 then [digitChar n] else digits (n div 10) @ [digitChar n])"

declare digits.simps [simp del]

definition toString :: "int \<Rightarrow> string" where
  "toString n = (if n < 0 then CHR ''-'' # digits (nat (- n)) else digits (nat n))"

definition isDigit :: "char \<Rightarrow> bool" where
  "isDigit c = (c \<in> set ''0123456789'')"

text \<open>The number a string of decimal digits denotes (used to state what \<open>toString\<close>
  produced).\<close>

definition digitValue :: "char \<Rightarrow> nat" where
  "digitValue c = (of_char c :: nat) - 48"

definition parseDecimal :: "string \<Rightarrow> nat" where
  "parseDecimal s = foldl (\<lambda>n c. 10 * n + digitValue c) 0 s"

text \<open>
  A JavaScript number is an IEEE 754 double, and each arithmetic operation returns the
  double nearest to the exact result, ties going to the even significand. \<open>fl\<close> is that
  rounding on the reals (below the overflow threshold): \<open>expo\<close> is the binary exponent
  of a positive real, \<open>ulp\<close> the spacing of the doubles around it (the spacing of the
  subnormals below \<open>2 powr (- 1022)\<close>), and the result is the multiple of \<open>ulp\<close> nearest
  to the argument.
\<close>

definition expo :: "real \<Rightarrow> int" where
  "expo x = \<lfloor>log 2 x\<rfloor>"

definition ulp :: "real \<Rightarrow> real" where
  "ulp x = 2 powr (of_int (max (expo x) (- 1022)) - 52)"

definition roundHalfEven :: "real \<Rightarrow> int" where
  "roundHalfEven y =
     (let f = \<lfloor>y\<rfloor>; d = y - of_int f
      in if d < 1 / 2 then f else if 1 / 2 < d then f + 1 else if even f then f else f + 1)"

definition fl :: "real \<Rightarrow> real" where
  "fl x = (if x = 0 then 0
           else if 0 < x then ulp x * of_int (roundHalfEven (x / ulp x))
           else - (ulp (- x) * of_int (roundHalfEven (- x / ulp (- x)))))"

text \<open>\<^verbatim>\<open>Math.floor(1000 + Math.random() * 9000).toString()\<close>, as a function of the double
  \<open>r\<close> that \<^verbatim>\<open>Math.random()\<close> returned: the product is rounded, the sum is rounded, and
  \<^verbatim>\<open>Math.floor\<close> is exact.\<close>

definition otpNumber :: "real \<Rightarrow> int" where
  "otpNumber r = \<lfloor>fl (1000 + fl (r * 9000))\<rfloor>"

definition otpString :: "real \<Rightarrow> string" where
  "otpString r = toString (otpNumber r)"

section \<open>Libraries and the outside world\<close>

text \<open>
  What a handler cannot compute by itself is an argument. The record \<open>deps\<close> holds
  the libraries: bcryptjs (hashing a string with a salt, comparing a string with a hash;
  the comparison may itself raise), jsonwebtoken's \<^verbatim>\<open>sign\<close> with the configured secret
  and lifetime, and the regular expression of the schema's email field.
  The record \<open>world\<close> holds what one request reads from outside: the clock, the
  clock read by the default of \<^verbatim>\<open>createdAt\<close>, the value of \<^verbatim>\<open>Math.random()\<close>, the
  salts bcrypt draws, the identifier the driver gives a new document, and what the SMTP
  transport answers to \<^verbatim>\<open>sendMail\<close> (\<open>Inr\<close> the message id, \<open>Inl\<close> the message of the
  error it throws).
  The database itself is taken to work: no network failure of a query is modelled.
\<close>

datatype exn =
    Error string
  | IllegalArguments
  | ValidationError string
  | DuplicateKey

record deps =
  bc_hash :: "string \<Rightarrow> string \<Rightarrow> string"
  bc_compare :: "string \<Rightarrow> string \<Rightarrow> exn + bool"
  jwt_sign :: "nat \<Rightarrow> string"
  emailPattern :: "string \<Rightarrow> bool"

record world =
  now :: int
  createdNow :: int
  random :: real
  passwordSalt :: string
  otpSalt :: string
  newId :: nat
  sendMail :: "string + string"

text \<open>A field of a JSON request body that reaches \<^verbatim>\<open>bcrypt.compare\<close> as it came: the
  password of login and the code of the OTP routes. Their validators (\<^verbatim>\<open>notEmpty\<close>,
  \<^verbatim>\<open>isLength\<close>, \<^verbatim>\<open>isNumeric\<close>) test the text of the value and leave the value alone, so a
  number or a boolean gets through as well as a string.\<close>

datatype jsvalue =
    JString string
  | JNumber int
  | JBoolean bool

text \<open>\<^verbatim>\<open>bcrypt.compare(s, hash)\<close>: bcryptjs rejects an argument that is not a string, be it
  the candidate \<open>s\<close> or a \<open>hash\<close> that is \<^verbatim>\<open>undefined\<close> (a field that was never set, or
  that the query did not select).\<close>

definition bcrypt_compare :: "deps \<Rightarrow> jsvalue \<Rightarrow> string option \<Rightarrow> exn + bool" where
  "bcrypt_compare d s h =
     (case s of
        JString t \<Rightarrow> (case h of None \<Rightarrow> Inl IllegalArguments | Some hs \<Rightarrow> bc_compare d t hs)
      | JNumber n \<Rightarrow> Inl IllegalArguments
      | JBoolean b \<Rightarrow> Inl IllegalArguments)"

text \<open>\<^verbatim>\<open>Date.now() > this.expire\<close>: a comparison with \<^verbatim>\<open>undefined\<close> is false.\<close>

definition dateNowAfter :: "int \<Rightarrow> int option \<Rightarrow> bool" where
  "dateNowAfter t e = (case e of None \<Rightarrow> False | Some x \<Rightarrow> t > x)"

section \<open>models/User.js\<close>

datatype path =
    Password
  | IsVerified
  | VerificationOTP
  | VerificationOTPExpire
  | ResetPasswordOTP
  | ResetPasswordExpire

text \<open>A stored user. The fields declared \<^verbatim>\<open>select: false\<close> are optional: in a loaded
  document they are absent unless the query asked for them.\<close>

record user =
  uid :: nat
  email :: string
  password :: "string option"
  name :: string
  isVerified :: bool
  verificationOTP :: "string option"
  verificationOTPExpire :: "int option"
  resetPasswordOTP :: "string option"
  resetPasswordExpire :: "int option"
  createdAt :: int

text \<open>A mongoose document: the fields, and the paths assigned since it was loaded or
  last saved.\<close>

record document = user +
  modifiedPaths :: "path list"

definition isModified :: "document \<Rightarrow> path \<Rightarrow> bool" where
  "isModified this p = (p \<in> set (modifiedPaths this))"

definition markModified :: "path \<Rightarrow> document \<Rightarrow> document" where
  "markModified p this = this\<lparr>modifiedPaths := p # modifiedPaths this\<rparr>"

text \<open>The \<^verbatim>\<open>pre('save')\<close> hook: the password is hashed only when it was assigned.\<close>

definition pre_save :: "deps \<Rightarrow> world \<Rightarrow> document \<Rightarrow> exn + document" where
  "pre_save d w this =
     (if \<not> isModified this Password then Inr this
      else (case password this of
              None \<Rightarrow> Inl IllegalArguments
            | Some p \<Rightarrow> Inr (this\<lparr>password := Some (bc_hash d p (passwordSalt w))\<rparr>)))"

definition comparePassword :: "deps \<Rightarrow> document \<Rightarrow> jsvalue \<Rightarrow> exn + bool" where
  "comparePassword d this candidatePassword =
     (case bcrypt_compare d candidatePassword (password this) of
        Inr b \<Rightarrow> Inr b
      | Inl e \<Rightarrow> Inl (Error ''Password comparison failed''))"

definition generateResetOTP :: "deps \<Rightarrow> world \<Rightarrow> document \<Rightarrow> string \<times> document" where
  "generateResetOTP d w this =
     (let otp = otpString (random w);
          this1 = markModified ResetPasswordOTP
                    (this\<lparr>resetPasswordOTP := Some (bc_hash d otp (otpSalt w))\<rparr>);
          this2 = markModified ResetPasswordExpire
                    (this1\<lparr>resetPasswordExpire := Some (now w + 10 * 60 * 1000)\<rparr>)
      in (otp, this2))"

definition verifyResetOTP :: "deps \<Rightarrow> world \<Rightarrow> document \<Rightarrow> jsvalue \<Rightarrow> bool" where
  "verifyResetOTP d w this candidateOTP =
     (if dateNowAfter (now w) (resetPasswordExpire this) then False
      else (case bcrypt_compare d candidateOTP (resetPasswordOTP this) of
              Inr b \<Rightarrow> b
            | Inl e \<Rightarrow> False))"

definition generateVerificationOTP :: "deps \<Rightarrow> world \<Rightarrow> document \<Rightarrow> string \<times> document" where
  "generateVerificationOTP d w this =
     (let otp = otpString (random w);
          this1 = markModified VerificationOTP
                    (this\<lparr>verificationOTP := Some (bc_hash d otp (otpSalt w))\<rparr>);
          this2 = markModified VerificationOTPExpire
                    (this1\<lparr>verificationOTPExpire := Some (now w + 10 * 60 * 1000)\<rparr>)
      in (otp, this2))"

definition verifyVerificationOTP :: "deps \<Rightarrow> world \<Rightarrow> document \<Rightarrow> jsvalue \<Rightarrow> bool" where
  "verifyVerificationOTP d w this candidateOTP =
     (if dateNowAfter (now w) (verificationOTPExpire this) then False
      else (case bcrypt_compare d candidateOTP (verificationOTP this) of
              Inr b \<Rightarrow> b
            | Inl e \<Rightarrow> False))"

section \<open>The users collection\<close>

text \<open>The collection is the list of stored users, in insertion order. A query by
  email returns the first match.\<close>

definition findOne :: "user list \<Rightarrow> string \<Rightarrow> user option" where
  "findOne st e = find (\<lambda>u. email u = e) st"

text \<open>Loading a stored user as a document: a \<^verbatim>\<open>select: false\<close> field is present
  only when the query names it (\<^verbatim>\<open>.select('+password')\<close>); nothing is modified yet.\<close>

definition hydrate :: "path list \<Rightarrow> user \<Rightarrow> document" where
  "hydrate sel u =
     user.extend
       (u\<lparr>password := (if Password \<in> set sel then password u else None),
          verificationOTP := (if VerificationOTP \<in> set sel then verificationOTP u else None),
          verificationOTPExpire :=
            (if VerificationOTPExpire \<in> set sel then verificationOTPExpire u else None),
          resetPasswordOTP := (if ResetPasswordOTP \<in> set sel then resetPasswordOTP u else None),
          resetPasswordExpire :=
            (if ResetPasswordExpire \<in> set sel then resetPasswordExpire u else None)\<rparr>)
       (document.fields [])"

fun findByIdAndDelete :: "nat \<Rightarrow> user list \<Rightarrow> user list" where
  "findByIdAndDelete i [] = []"
| "findByIdAndDelete i (u # us) = (if uid u = i then us else u # findByIdAndDelete i us)"

text \<open>Writing one modified path of a document into the stored user.\<close>

fun writePath :: "document \<Rightarrow> path \<Rightarrow> user \<Rightarrow> user" where
  "writePath this Password u = u\<lparr>password := password this\<rparr>"
| "writePath this IsVerified u = u\<lparr>isVerified := isVerified this\<rparr>"
| "writePath this VerificationOTP u = u\<lparr>verificationOTP := verificationOTP this\<rparr>"
| "writePath this VerificationOTPExpire u = u\<lparr>verificationOTPExpire := verificationOTPExpire this\<rparr>"
| "writePath this ResetPasswordOTP u = u\<lparr>resetPasswordOTP := resetPasswordOTP this\<rparr>"
| "writePath this ResetPasswordExpire u = u\<lparr>resetPasswordExpire := resetPasswordExpire this\<rparr>"

text \<open>The schema's validators of the password path (\<^verbatim>\<open>required\<close>, \<^verbatim>\<open>minlength: 6\<close>); mongoose
  runs them on a modified path before the \<^verbatim>\<open>pre('save')\<close> hook, so on the plain text.\<close>

definition validatePassword :: "document \<Rightarrow> exn option" where
  "validatePassword this =
     (if \<not> isModified this Password then None
      else (case password this of
              None \<Rightarrow> Some (ValidationError ''Password is required'')
            | Some p \<Rightarrow>
                if p = [] then Some (ValidationError ''Password is required'')
                else if length p < 6 then
                  Some (ValidationError ''Password must be at least 6 characters'')
                else None))"

text \<open>\<^verbatim>\<open>document.save()\<close>: validation, the hook, then the modified paths are written to
  the stored user with the document's identifier. Of the validators only those of the
  password are run here: the other validated paths, email and name, are never assigned
  by a handler after creation, and a stored user is taken to satisfy the schema.\<close>

definition save :: "deps \<Rightarrow> world \<Rightarrow> document \<Rightarrow> user list \<Rightarrow> exn + (document \<times> user list)" where
  "save d w this st =
     (case validatePassword this of
        Some e \<Rightarrow> Inl e
      | None \<Rightarrow>
          (case pre_save d w this of
             Inl e \<Rightarrow> Inl e
           | Inr this1 \<Rightarrow>
               Inr (this1\<lparr>modifiedPaths := []\<rparr>,
                    map (\<lambda>u. if uid u = uid this1
                              then fold (writePath this1) (modifiedPaths this1) u else u) st)))"

text \<open>\<^verbatim>\<open>User.create({email, password, name, isVerified})\<close>: the schema's setters
  (\<^verbatim>\<open>lowercase\<close>, \<^verbatim>\<open>trim\<close>), defaults and validators, the hook, and the insert under the
  unique indexes on the identifier and the email.\<close>

definition create ::
  "deps \<Rightarrow> world \<Rightarrow> string \<Rightarrow> string \<Rightarrow> string \<Rightarrow> bool \<Rightarrow> user list \<Rightarrow> exn + (document \<times> user list)"
where
  "create d w em pw nm ver st =
     (let this = \<lparr>uid = newId w, email = toLowerCase (trim em), password = Some pw,
                   name = trim nm, isVerified = ver, verificationOTP = None,
                   verificationOTPExpire = None, resetPasswordOTP = None,
                   resetPasswordExpire = None, createdAt = createdNow w,
                   modifiedPaths = [Password]\<rparr>
      in if email this = [] then Inl (ValidationError ''Email is required'')
         else if \<not> emailPattern d (email this) then
           Inl (ValidationError ''Please enter a valid email'')
         else if name this = [] then Inl (ValidationError ''Name is required'')
         else (case validatePassword this of
                 Some e \<Rightarrow> Inl e
               | None \<Rightarrow>
                   (case pre_save d w this of
                      Inl e \<Rightarrow> Inl e
                    | Inr this1 \<Rightarrow>
                        if list_ex (\<lambda>u. uid u = uid this1 \<or> email u = email this1) st
                        then Inl DuplicateKey
                        else Inr (this1\<lparr>modifiedPaths := []\<rparr>, st @ [user.truncate this1]))))"

section \<open>utils/email.js\<close>

record email_result =
  success :: bool
  messageId :: "string option"
  error :: "string option"

text \<open>\<open>sendMail w\<close> is what the transport answers: \<open>Inr\<close> the message id, or
  \<open>Inl\<close> the message of the error it throws. On an error the verification mailer
  logs it, writes the code to the file \<^verbatim>\<open>otp.txt\<close> and returns \<^verbatim>\<open>success: true\<close>.\<close>

definition sendPasswordResetEmail :: "world \<Rightarrow> string \<Rightarrow> string \<Rightarrow> string \<Rightarrow> email_result" where
  "sendPasswordResetEmail w em otp userName =
     (case sendMail w of
        Inr mid \<Rightarrow> \<lparr>success = True, messageId = Some mid, error = None\<rparr>
      | Inl msg \<Rightarrow> \<lparr>success = False, messageId = None, error = Some msg\<rparr>)"

definition sendVerificationEmail :: "world \<Rightarrow> string \<Rightarrow> string \<Rightarrow> string \<Rightarrow> email_result" where
  "sendVerificationEmail w em otp userName =
     (case sendMail w of
        Inr mid \<Rightarrow> \<lparr>success = True, messageId = Some mid, error = None\<rparr>
      | Inl msg \<Rightarrow> \<lparr>success = True, messageId = None, error = Some msg\<rparr>)"

section \<open>middleware/auth.js\<close>

definition generateToken :: "deps \<Rightarrow> nat \<Rightarrow> string" where
  "generateToken d userId = jwt_sign d userId"

section \<open>routes/auth.js\<close>

text \<open>
  A handler runs after the validation middleware of its route. It takes the collection
  and the fields of the validated request body (strings, but for the password of login
  and the code of the OTP routes, which are JSON values) and returns the response
  (\<^verbatim>\<open>res.status(n).json({success, message, data, error})\<close>) with the collection it leaves.
  The welcome email of verify-email is sent without being awaited and its failure is
  only logged: it touches neither the response nor the collection and is left out.
\<close>

datatype payload =
    SignupData string bool
  | SessionData string nat string string
  | NeedsVerification bool string
  | EmailData string

record response =
  status :: nat
  json_success :: bool
  json_message :: string
  json_data :: "payload option"
  json_error :: "exn option"

definition reply :: "nat \<Rightarrow> bool \<Rightarrow> string \<Rightarrow> response" where
  "reply n ok msg =
     \<lparr>status = n, json_success = ok, json_message = msg, json_data = None, json_error = None\<rparr>"

definition replyData :: "nat \<Rightarrow> bool \<Rightarrow> string \<Rightarrow> payload \<Rightarrow> response" where
  "replyData n ok msg dat = (reply n ok msg)\<lparr>json_data := Some dat\<rparr>"

definition replyError :: "string \<Rightarrow> exn \<Rightarrow> response" where
  "replyError msg e = (reply 500 False msg)\<lparr>json_error := Some e\<rparr>"

text \<open>\<^verbatim>\<open>req.body.name || email.split('@')[0].toUpperCase()\<close>: an absent or empty name is
  falsy.\<close>

definition signupName :: "string option \<Rightarrow> string \<Rightarrow> string" where
  "signupName bodyName em =
     (case bodyName of
        None \<Rightarrow> toUpperCase (splitAtSignFirst em)
      | Some n \<Rightarrow> if n = [] then toUpperCase (splitAtSignFirst em) else n)"

text \<open>POST /signup.\<close>

definition signup ::
  "deps \<Rightarrow> world \<Rightarrow> user list \<Rightarrow> string \<Rightarrow> string \<Rightarrow> string option \<Rightarrow> response \<times> user list"
where
  "signup d w st em pw bodyName =
     (case findOne st em of
        Some existingUser \<Rightarrow> (reply 400 False ''User with this email already exists'', st)
      | None \<Rightarrow>
          (let nm = signupName bodyName em in
           case create d w em pw nm False st of
             Inl e \<Rightarrow> (replyError ''Error creating user'' e, st)
           | Inr (user0, st1) \<Rightarrow>
               (let (otp, user1) = generateVerificationOTP d w user0 in
                case save d w user1 st1 of
                  Inl e \<Rightarrow> (replyError ''Error creating user'' e, st1)
                | Inr (user2, st2) \<Rightarrow>
                    (let emailResult = sendVerificationEmail w em otp nm in
                     if \<not> success emailResult then
                       (reply 500 False
                          ''Error sending verification email. Please check your email address and try again.'',
                        findByIdAndDelete (uid user2) st2)
                     else
                       (replyData 201 True
                          ''User registered. Please check your email for the verification code.''
                          (SignupData (email user2) False),
                        st2)))))"

text \<open>POST /verify-email.\<close>

definition verifyEmail ::
  "deps \<Rightarrow> world \<Rightarrow> user list \<Rightarrow> string \<Rightarrow> jsvalue \<Rightarrow> response \<times> user list"
where
  "verifyEmail d w st em otp =
     (case findOne st em of
        None \<Rightarrow> (reply 400 False ''Invalid email'', st)
      | Some u \<Rightarrow>
          (let user0 = hydrate [VerificationOTP, VerificationOTPExpire] u in
           if isVerified user0 then (reply 400 False ''User already verified'', st)
           else if \<not> verifyVerificationOTP d w user0 otp then
             (reply 400 False ''Invalid or expired OTP'', st)
           else
             (let user1 = markModified IsVerified (user0\<lparr>isVerified := True\<rparr>);
                  user2 = markModified VerificationOTP (user1\<lparr>verificationOTP := None\<rparr>);
                  user3 = markModified VerificationOTPExpire
                            (user2\<lparr>verificationOTPExpire := None\<rparr>)
              in case save d w user3 st of
                   Inl e \<Rightarrow> (replyError ''Error verifying email'' e, st)
                 | Inr (user4, st1) \<Rightarrow>
                     (replyData 200 True ''Email verified successfully''
                        (SessionData (generateToken d (uid user4)) (uid user4) (email user4)
                           (name user4)),
                      st1))))"

text \<open>POST /login.\<close>

definition login ::
  "deps \<Rightarrow> world \<Rightarrow> user list \<Rightarrow> string \<Rightarrow> jsvalue \<Rightarrow> response \<times> user list"
where
  "login d w st em pw =
     (case findOne st em of
        None \<Rightarrow> (reply 401 False ''Invalid email or password'', st)
      | Some u \<Rightarrow>
          (let user0 = hydrate [Password] u in
           case comparePassword d user0 pw of
             Inl e \<Rightarrow> (replyError ''Error logging in'' e, st)
           | Inr isPasswordValid \<Rightarrow>
               if \<not> isPasswordValid then (reply 401 False ''Invalid email or password'', st)
               else if \<not> isVerified user0 then
                 (replyData 403 False ''Email not verified. Please verify your email.''
                    (NeedsVerification True (email user0)),
                  st)
               else
                 (replyData 200 True ''Login successful''
                    (SessionData (generateToken d (uid user0)) (uid user0) (email user0)
                       (name user0)),
                  st)))"

text \<open>POST /forgot-password.\<close>

definition forgotPassword ::
  "deps \<Rightarrow> world \<Rightarrow> user list \<Rightarrow> string \<Rightarrow> response \<times> user list"
where
  "forgotPassword d w st em =
     (case findOne st em of
        None \<Rightarrow>
          (reply 200 True ''If an account exists with this email, an OTP has been sent'', st)
      | Some u \<Rightarrow>
          (let user0 = hydrate [] u;
               (otp, user1) = generateResetOTP d w user0
           in case save d w user1 st of
                Inl e \<Rightarrow> (replyError ''Error processing request'' e, st)
              | Inr (user2, st1) \<Rightarrow>
                  (let emailResult = sendPasswordResetEmail w em otp (name user2) in
                   if \<not> success emailResult then
                     (reply 500 False ''Error sending email. Please try again later.'', st1)
                   else
                     (replyData 200 True ''OTP sent to your email. Valid for 10 minutes.''
                        (EmailData em),
                      st1))))"

text \<open>\<^verbatim>\<open>!user.resetPasswordOTP\<close>: \<^verbatim>\<open>undefined\<close> and the empty string are falsy.\<close>

definition falsy :: "string option \<Rightarrow> bool" where
  "falsy v = (v = None \<or> v = Some [])"

text \<open>POST /verify-otp.\<close>

definition verifyOtp ::
  "deps \<Rightarrow> world \<Rightarrow> user list \<Rightarrow> string \<Rightarrow> jsvalue \<Rightarrow> response \<times> user list"
where
  "verifyOtp d w st em otp =
     (case findOne st em of
        None \<Rightarrow> (reply 400 False ''Invalid or expired OTP'', st)
      | Some u \<Rightarrow>
          (let user0 = hydrate [ResetPasswordOTP, ResetPasswordExpire] u in
           if falsy (resetPasswordOTP user0) then
             (reply 400 False ''Invalid or expired OTP'', st)
           else if \<not> verifyResetOTP d w user0 otp then
             (reply 400 False ''Invalid or expired OTP'', st)
           else (reply 200 True ''OTP verified successfully'', st)))"

text \<open>POST /reset-password.\<close>

definition resetPassword ::
  "deps \<Rightarrow> world \<Rightarrow> user list \<Rightarrow> string \<Rightarrow> jsvalue \<Rightarrow> string \<Rightarrow> response \<times> user list"
where
  "resetPassword d w st em otp newPassword =
     (case findOne st em of
        None \<Rightarrow> (reply 400 False ''Invalid or expired OTP'', st)
      | Some u \<Rightarrow>
          (let user0 = hydrate [ResetPasswordOTP, ResetPasswordExpire] u in
           if falsy (resetPasswordOTP user0) then
             (reply 400 False ''Invalid or expired OTP'', st)
           else if \<not> verifyResetOTP d w user0 otp then
             (reply 400 False ''Invalid or expired OTP'', st)
           else
             (let user1 = markModified Password (user0\<lparr>password := Some newPassword\<rparr>);
                  user2 = markModified ResetPasswordOTP (user1\<lparr>resetPasswordOTP := None\<rparr>);
                  user3 = markModified ResetPasswordExpire
                            (user2\<lparr>resetPasswordExpire := None\<rparr>)
              in case save d w user3 st of
                   Inl e \<Rightarrow> (replyError ''Error resetting password'' e, st)
                 | Inr (user4, st1) \<Rightarrow>
                     (reply 200 True
                        ''Password reset successful. You can now login with your new password.'',
                      st1))))"

section \<open>A small instance for concrete runs\<close>

text \<open>
  A stand-in for the libraries, used only to run the handlers on concrete inputs: the
  hash of a string is the first eight characters of the salt (padded with dots) followed
  by the string, and comparing recomputes it. Its pattern admits every email.
\<close>

definition demoHash :: "string \<Rightarrow> string \<Rightarrow> string" where
  "demoHash s salt = take 8 (salt @ ''........'') @ s"

definition demoCompare :: "string \<Rightarrow> string \<Rightarrow> exn + bool" where
  "demoCompare s h = Inr (demoHash s (take 8 h) = h)"

definition demoDeps :: deps where
  "demoDeps = \<lparr>bc_hash = demoHash, bc_compare = demoCompare,
                 jwt_sign = (\<lambda>i. ''token-'' @ digits i), emailPattern = (\<lambda>e. True)\<rparr>"

definition demoWorld :: world where
  "demoWorld = \<lparr>now = 1000000, createdNow = 999990, random = 1 / 2, passwordSalt = ''saltsalt'',
                  otpSalt = ''pepperpe'', newId = 1, sendMail = Inr ''msg-1''\<rparr>"

definition alice :: user where
  "alice = \<lparr>uid = 7, email = ''known@x.com'', password = Some (demoHash ''oldpass1'' ''saltsalt''),
             name = ''Alice'', isVerified = True, verificationOTP = None,
             verificationOTPExpire = None,
             resetPasswordOTP = Some (demoHash ''5500'' ''pepperpe''),
             resetPasswordExpire = Some 1600000, createdAt = 5\<rparr>"

definition bob :: user where
  "bob = \<lparr>uid = 8, email = ''b@x.com'', password = Some (demoHash ''pass123'' ''saltsalt''),
           name = ''B'', isVerified = False,
           verificationOTP = Some (demoHash ''5500'' ''pepperpe''),
           verificationOTPExpire = Some 1600000, resetPasswordOTP = None,
           resetPasswordExpire = None, createdAt = 999990\<rparr>"

section \<open>Notions used to state the properties\<close>

text \<open>The session token a response carries, if any.\<close>

definition issuedToken :: "response \<Rightarrow> string option" where
  "issuedToken res = (case json_data res of Some (SessionData t i e n) \<Rightarrow> Some t | _ \<Rightarrow> None)"

text \<open>The stored user a successful reset-password leaves.\<close>

definition afterReset :: "deps \<Rightarrow> world \<Rightarrow> string \<Rightarrow> user \<Rightarrow> user" where
  "afterReset d w np u =
     u\<lparr>password := Some (bc_hash d np (passwordSalt w)),
       resetPasswordOTP := None, resetPasswordExpire := None\<rparr>"

text \<open>The stored user a successful signup leaves.\<close>

definition newUser :: "deps \<Rightarrow> world \<Rightarrow> string \<Rightarrow> string \<Rightarrow> string \<Rightarrow> user" where
  "newUser d w em pw nm =
     \<lparr>uid = newId w, email = toLowerCase (trim em),
      password = Some (bc_hash d pw (passwordSalt w)), name = trim nm, isVerified = False,
      verificationOTP = Some (bc_hash d (otpString (random w)) (otpSalt w)),
      verificationOTPExpire = Some (now w + 10 * 60 * 1000),
      resetPasswordOTP = None, resetPasswordExpire = None, createdAt = createdNow w\<rparr>"

section \<open>Unfolding rules\<close>

lemmas string_defs = toUpperCase_def toLowerCase_def trim_def isSpace_def splitAtSignFirst_def
  lowerLetters_def upperLetters_def

lemmas user_model_defs =
  bcrypt_compare_def dateNowAfter_def isModified_def markModified_def pre_save_def
  comparePassword_def generateResetOTP_def verifyResetOTP_def generateVerificationOTP_def
  verifyVerificationOTP_def

lemmas store_defs = findOne_def hydrate_def validatePassword_def save_def create_def
  user.defs document.defs

lemmas reply_defs = reply_def replyData_def replyError_def

lemmas demo_defs = demoHash_def demoCompare_def demoDeps_def demoWorld_def alice_def bob_def

section \<open>Rounding\<close>

lemma rhe_le:
  assumes "y < of_int k + 1 / 2"
  shows "roundHalfEven y \<le> k"
proof -
  have f: "\<lfloor>y\<rfloor> \<le> k" using assms by linarith
  show ?thesis
  proof (cases "\<lfloor>y\<rfloor> = k")
    case True
    then have "y - of_int \<lfloor>y\<rfloor> < 1 / 2" using assms by simp
    then show ?thesis using True by (simp add: roundHalfEven_def Let_def)
  next
    case False
    then have "\<lfloor>y\<rfloor> + 1 \<le> k" using f by simp
    then show ?thesis by (simp add: roundHalfEven_def Let_def)
  qed
qed

lemma rhe_ge:
  assumes "of_int k \<le> y"
  shows "k \<le> roundHalfEven y"
proof -
  have "k \<le> \<lfloor>y\<rfloor>" using assms by linarith
  then show ?thesis by (simp add: roundHalfEven_def Let_def)
qed

lemma rhe_int: "roundHalfEven (of_int k) = k"
  by (simp add: roundHalfEven_def)

lemma expo_bounds:
  assumes "0 < x"
  shows "2 powr of_int (expo x) \<le> x" and "x < 2 powr (of_int (expo x) + 1)"
  using floor_log_eq_powr_iff[of x 2 "expo x"] assms by (simp_all add: expo_def)

lemma expo_eq:
  assumes "0 < x" "2 powr of_int e \<le> x" "x < 2 powr (of_int e + 1)"
  shows "expo x = e"
  using floor_log_eq_powr_iff[of x 2 e] assms by (simp add: expo_def)

lemma expo_less:
  assumes "0 < x" "x < 2 powr of_int e"
  shows "expo x < e"
proof (rule ccontr)
  assume "\<not> expo x < e"
  then have "of_int e \<le> (of_int (expo x) :: real)" by simp
  then have "(2::real) powr of_int e \<le> 2 powr of_int (expo x)" by simp
  with expo_bounds(1)[OF assms(1)] assms(2) show False by linarith
qed

lemma ulp_pos: "0 < ulp x"
  by (simp add: ulp_def)

lemma powr_shift: "(2::real) powr (a + 1) = 2 powr (a - 52) * 2 ^ 53"
proof -
  have "a + 1 = (a - 52) + 53" by simp
  then have "(2::real) powr (a + 1) = 2 powr ((a - 52) + 53)" by (rule arg_cong)
  also have "\<dots> = 2 powr (a - 52) * 2 powr 53" by (rule powr_add)
  finally show ?thesis by simp
qed

lemma fl_below:
  assumes "0 < x" "x < 2 powr of_int e" "- 1022 < e"
  shows "fl x \<le> 2 powr of_int e"
proof -
  define m where "m = max (expo x) (- 1022)"
  have el: "expo x < e" using expo_less[OF assms(1,2)] .
  have m: "m + 1 \<le> e" "expo x \<le> m" using el assms(3) by (auto simp: m_def)
  have u: "ulp x = 2 powr (of_int m - 52)" by (simp add: ulp_def m_def)
  have "x < 2 powr (of_int (expo x) + 1)" using expo_bounds(2)[OF assms(1)] .
  also have "\<dots> \<le> 2 powr (of_int m + 1)" using m(2) by simp
  finally have x: "x < 2 powr (of_int m + 1)" .
  have top: "2 powr (of_int m + 1) = ulp x * 2 ^ 53"
    unfolding u by (rule powr_shift)
  have "x / ulp x < 2 ^ 53" using x ulp_pos[of x] unfolding top by (simp add: field_simps)
  moreover have "(of_int (2 ^ 53) :: real) = 2 ^ 53" by simp
  ultimately have "x / ulp x < of_int (2 ^ 53) + 1 / 2" by linarith
  then have "roundHalfEven (x / ulp x) \<le> 2 ^ 53" by (rule rhe_le)
  then have "(of_int (roundHalfEven (x / ulp x)) :: real) \<le> of_int (2 ^ 53)"
    by (simp only: of_int_le_iff)
  then have r: "(of_int (roundHalfEven (x / ulp x)) :: real) \<le> 2 ^ 53" by simp
  have "fl x = ulp x * of_int (roundHalfEven (x / ulp x))"
    using assms(1) by (simp add: fl_def)
  also have "\<dots> \<le> ulp x * 2 ^ 53"
    using r ulp_pos[of x] by (simp add: mult_left_mono)
  also have "\<dots> = 2 powr (of_int m + 1)" using top by simp
  also have "\<dots> = 2 powr of_int (m + 1)" by simp
  also have "\<dots> \<le> 2 powr of_int e" using m(1) by simp
  finally show ?thesis .
qed

lemma fl_le_grid:
  assumes "0 < x" "expo x = e" "- 1022 \<le> e"
    and "x / 2 powr (of_int e - 52) < of_int k + 1 / 2"
  shows "fl x \<le> 2 powr (of_int e - 52) * of_int k"
proof -
  have u: "ulp x = 2 powr (of_int e - 52)" using assms(2,3) by (simp add: ulp_def max_def)
  have "roundHalfEven (x / ulp x) \<le> k" unfolding u using assms(4) by (rule rhe_le)
  then have "(of_int (roundHalfEven (x / ulp x)) :: real) \<le> of_int k" by simp
  moreover have "fl x = ulp x * of_int (roundHalfEven (x / ulp x))"
    using assms(1) by (simp add: fl_def)
  ultimately show ?thesis using ulp_pos[of x] unfolding u by (simp add: mult_left_mono)
qed

lemma fl_ge_grid:
  assumes "0 < x" "expo x = e" "- 1022 \<le> e"
    and "of_int k \<le> x / 2 powr (of_int e - 52)"
  shows "2 powr (of_int e - 52) * of_int k \<le> fl x"
proof -
  have u: "ulp x = 2 powr (of_int e - 52)" using assms(2,3) by (simp add: ulp_def max_def)
  have "k \<le> roundHalfEven (x / ulp x)" unfolding u using assms(4) by (rule rhe_ge)
  then have "of_int k \<le> (of_int (roundHalfEven (x / ulp x)) :: real)" by simp
  moreover have "fl x = ulp x * of_int (roundHalfEven (x / ulp x))"
    using assms(1) by (simp add: fl_def)
  ultimately show ?thesis using ulp_pos[of x] unfolding u by (simp add: mult_left_mono)
qed

lemma fl_exact:
  assumes "0 < x" "expo x = e" "- 1022 \<le> e"
    and "x / 2 powr (of_int e - 52) = of_int k"
  shows "fl x = x"
proof -
  have u: "ulp x = 2 powr (of_int e - 52)" using assms(2,3) by (simp add: ulp_def max_def)
  have "fl x = ulp x * of_int (roundHalfEven (x / ulp x))"
    using assms(1) by (simp add: fl_def)
  also have "\<dots> = ulp x * (x / ulp x)" unfolding u assms(4) by (simp add: rhe_int)
  also have "\<dots> = x" using ulp_pos[of x] by simp
  finally show ?thesis .
qed

lemma fl_nonneg:
  assumes "0 \<le> x"
  shows "0 \<le> fl x"
proof (cases "x = 0")
  case True
  then show ?thesis by (simp add: fl_def)
next
  case False
  then have x: "0 < x" using assms by simp
  have "of_int 0 \<le> x / ulp x" using x ulp_pos[of x] by simp
  then have "0 \<le> roundHalfEven (x / ulp x)" by (rule rhe_ge)
  then show ?thesis using x ulp_pos[of x] by (simp add: fl_def)
qed

lemma ulp13: "(2::real) powr (of_int 13 - 52) = 1 / 2 ^ 39"
proof -
  have "(2::real) powr (of_int 13 - 52) = 2 powr (- 39)" by simp
  also have "\<dots> = 1 / 2 powr 39" by (rule powr_minus_divide)
  finally show ?thesis by simp
qed

lemma expo13:
  assumes "8192 \<le> x" "x < 16384"
  shows "expo x = 13"
proof -
  have "(2::real) powr of_int 13 = 8192" "(2::real) powr (of_int 13 + 1) = 16384" by simp_all
  then show ?thesis using assms expo_eq[of x 13] by simp
qed

lemma product_bound:
  assumes "0 \<le> r" "r \<le> 1 - 1 / 2 ^ 53"
  shows "0 \<le> fl (r * 9000) \<and> fl (r * 9000) \<le> 9000 - 1 / 2 ^ 39"
proof -
  let ?x = "r * 9000"
  have x0: "0 \<le> ?x" using assms(1) by simp
  have xu: "?x \<le> 9000 - 9000 / 2 ^ 53" using assms(2) by simp
  have lo: "0 \<le> fl ?x" using x0 by (rule fl_nonneg)
  have hi: "fl ?x \<le> 9000 - 1 / 2 ^ 39"
  proof (cases "?x < 8192")
    case True
    show ?thesis
    proof (cases "?x = 0")
      case True
      then show ?thesis by (simp add: fl_def)
    next
      case False
      then have "0 < ?x" using x0 by linarith
      moreover have "?x < 2 powr of_int 13" using True by simp
      ultimately have "fl ?x \<le> 2 powr of_int 13" by (rule fl_below) simp
      then show ?thesis by simp
    qed
  next
    case False
    then have b: "8192 \<le> ?x" "?x < 16384" using xu by simp_all
    have e: "expo ?x = 13" using b by (rule expo13)
    have pos: "0 < ?x" using b by simp
    have "?x * 2 ^ 39 \<le> (9000 - 9000 / 2 ^ 53) * 2 ^ 39" using xu by simp
    also have "\<dots> < of_int (9000 * 2 ^ 39 - 1) + 1 / 2" by simp
    finally have "?x / 2 powr (of_int 13 - 52) < of_int (9000 * 2 ^ 39 - 1) + 1 / 2"
      unfolding ulp13 by simp
    from fl_le_grid[OF pos e _ this]
    have "fl ?x \<le> 2 powr (of_int 13 - 52) * of_int (9000 * 2 ^ 39 - 1)" by simp
    then show ?thesis unfolding ulp13 by simp
  qed
  show ?thesis using lo hi by simp
qed

lemma powr_gt_oneD:
  assumes "1 < (2::real) powr a"
  shows "0 < a"
proof (rule ccontr)
  assume "\<not> 0 < a"
  then have "a \<le> 0" by simp
  then have "(2::real) powr a \<le> 2 powr 0" by (intro powr_mono) simp_all
  with assms show False by simp
qed

lemma ulp_pow:
  assumes "e \<le> 52"
  shows "(2::real) powr (of_int e - 52) = 1 / 2 ^ nat (52 - e)"
proof -
  have j: "real (nat (52 - e)) = 52 - of_int e" using assms by (simp add: of_nat_nat)
  have eq: "of_int e - 52 = - real (nat (52 - e))" unfolding j by linarith
  have "(2::real) powr (of_int e - 52) = 2 powr (- real (nat (52 - e)))"
    using eq by (rule arg_cong)
  also have "\<dots> = 1 / 2 powr real (nat (52 - e))" by (rule powr_minus_divide)
  also have "2 powr real (nat (52 - e)) = (2::real) ^ nat (52 - e)"
    by (rule powr_realpow) simp
  finally show ?thesis .
qed

lemma fl_ge_int:
  assumes "0 < n" "of_int n \<le> y" "y < 2 ^ 53"
  shows "of_int n \<le> fl y"
proof -
  have "(1::real) \<le> of_int n" using assms(1) by simp
  then have y1: "1 \<le> y" using assms(2) by linarith
  then have pos: "0 < y" by simp
  define e where "e = expo y"
  have "y < 2 powr of_int 53" using assms(3) by simp
  then have e52: "e \<le> 52" using expo_less[OF pos, of 53] by (simp add: e_def)
  have "y < 2 powr (of_int e + 1)" unfolding e_def using expo_bounds(2)[OF pos] .
  then have "1 < (2::real) powr (of_int e + 1)" using y1 by linarith
  then have "(0::real) < of_int e + 1" by (rule powr_gt_oneD)
  then have e0: "0 \<le> e" by linarith
  define j where "j = nat (52 - e)"
  have u: "(2::real) powr (of_int e - 52) = 1 / 2 ^ j" unfolding j_def using e52 by (rule ulp_pow)
  have "of_int (n * 2 ^ j) = of_int n * (2::real) ^ j" by simp
  also have "\<dots> \<le> y * 2 ^ j" using assms(2) by simp
  finally have "of_int (n * 2 ^ j) \<le> y / 2 powr (of_int e - 52)" unfolding u by simp
  from fl_ge_grid[OF pos e_def[symmetric] _ this] e0
  have "2 powr (of_int e - 52) * of_int (n * 2 ^ j) \<le> fl y" by simp
  then show ?thesis unfolding u by simp
qed

lemma sum_bound:
  assumes "0 \<le> t" "t \<le> 9000 - 1 / 2 ^ 39"
  shows "1000 \<le> fl (1000 + t) \<and> fl (1000 + t) < 10000"
proof -
  let ?y = "1000 + t"
  have yl: "1000 \<le> ?y" and yu: "?y \<le> 10000 - 1 / 2 ^ 39" using assms by simp_all
  have pos: "0 < ?y" using yl by simp
  have "of_int 1000 \<le> ?y" using yl by simp
  moreover have "?y < 2 ^ 53" using yu by simp
  ultimately have "of_int 1000 \<le> fl ?y" by (intro fl_ge_int) simp_all
  then have lo: "1000 \<le> fl ?y" by simp
  have hi: "fl ?y < 10000"
  proof (cases "?y < 8192")
    case True
    then have "?y < 2 powr of_int 13" by simp
    with pos have "fl ?y \<le> 2 powr of_int 13" by (rule fl_below) simp
    then show ?thesis by simp
  next
    case False
    then have b: "8192 \<le> ?y" "?y < 16384" using yu by simp_all
    have e: "expo ?y = 13" using b by (rule expo13)
    have "?y * 2 ^ 39 \<le> (10000 - 1 / 2 ^ 39) * 2 ^ 39" using yu by simp
    also have "\<dots> < of_int (10000 * 2 ^ 39 - 1) + 1 / 2" by simp
    finally have "?y / 2 powr (of_int 13 - 52) < of_int (10000 * 2 ^ 39 - 1) + 1 / 2"
      unfolding ulp13 by simp
    from fl_le_grid[OF pos e _ this]
    have "fl ?y \<le> 2 powr (of_int 13 - 52) * of_int (10000 * 2 ^ 39 - 1)" by simp
    then show ?thesis unfolding ulp13 by simp
  qed
  show ?thesis using lo hi by simp
qed

lemma otpNumber_range:
  assumes "0 \<le> r" "r \<le> 1 - 1 / 2 ^ 53"
  shows "1000 \<le> otpNumber r \<and> otpNumber r \<le> 9999"
proof -
  from product_bound[OF assms] sum_bound
  have "1000 \<le> fl (1000 + fl (r * 9000)) \<and> fl (1000 + fl (r * 9000)) < 10000" by blast
  then show ?thesis unfolding otpNumber_def by (simp add: le_floor_iff floor_less_iff)
qed

lemma fl_int_exact:
  assumes "0 < n" "n < 2 ^ 53"
  shows "fl (of_int n) = of_int n"
proof -
  let ?y = "of_int n :: real"
  have pos: "0 < ?y" using assms(1) by simp
  define e where "e = expo ?y"
  have "?y < of_int (2 ^ 53)" using assms(2) by (simp only: of_int_less_iff)
  then have "?y < 2 powr of_int 53" by simp
  then have e52: "e \<le> 52" using expo_less[OF pos, of 53] by (simp add: e_def)
  have y1: "1 \<le> ?y" using assms(1) by simp
  have "?y < 2 powr (of_int e + 1)" unfolding e_def using expo_bounds(2)[OF pos] .
  then have "1 < (2::real) powr (of_int e + 1)" using y1 by linarith
  then have "(0::real) < of_int e + 1" by (rule powr_gt_oneD)
  then have e0: "0 \<le> e" by linarith
  define j where "j = nat (52 - e)"
  have u: "(2::real) powr (of_int e - 52) = 1 / 2 ^ j" unfolding j_def using e52 by (rule ulp_pow)
  have "?y / 2 powr (of_int e - 52) = of_int (n * 2 ^ j)" unfolding u by simp
  from fl_exact[OF pos e_def[symmetric] _ this] e0 show ?thesis by simp
qed

lemma otpNumber_half: "otpNumber (1 / 2) = 5500"
proof -
  have a: "fl (of_int 4500) = of_int 4500" by (rule fl_int_exact) simp_all
  have b: "fl (of_int 5500) = of_int 5500" by (rule fl_int_exact) simp_all
  have "fl (1 / 2 * 9000) = 4500" using a by simp
  then have "fl (1000 + fl (1 / 2 * 9000)) = 5500" using b by simp
  then show ?thesis unfolding otpNumber_def by simp
qed

section \<open>The one-time code\<close>

lemma digitChar_isDigit: "isDigit (digitChar k)"
  by (simp add: isDigit_def digitChar_def del: set_simps)

lemma digits_four:
  assumes "1000 \<le> n" "n < 10000"
  shows "digits n =
         [digitChar (n div 1000), digitChar (n div 100), digitChar (n div 10), digitChar n]"
proof -
  have a: "\<not> n < 10" "\<not> n div 10 < 10" "\<not> n div 10 div 10 < 10" "n div 10 div 10 div 10 < 10"
    using assms by auto
  have b: "n div 10 div 10 = n div 100" "n div 100 div 10 = n div 1000"
    by (simp_all add: div_mult2_eq[symmetric])
  show ?thesis
    using a
    by (subst digits.simps, subst digits.simps, subst digits.simps, subst digits.simps)
       (simp add: b)
qed

lemma digitChar_nonzero:
  assumes "1 \<le> k" "k \<le> 9"
  shows "digitChar k \<noteq> CHR ''0''"
proof -
  from assms have "k \<in> {1,2,3,4,5,6,7,8,9}" by auto
  then show ?thesis by (auto simp: digitChar_def)
qed

lemma digitValue_nth:
  assumes "j < 10"
  shows "digitValue (''0123456789'' ! j) = j"
proof -
  from assms have "j \<in> {0,1,2,3,4,5,6,7,8,9}" by auto
  then show ?thesis unfolding digitValue_def
    by (elim insertE) simp_all
qed

lemma digitValue_digitChar: "digitValue (digitChar k) = k mod 10"
  unfolding digitChar_def by (rule digitValue_nth) simp

lemma decimal_expansion:
  fixes k :: nat
  assumes "k < 10000"
  shows "10 * (10 * (10 * (k div 1000 mod 10) + k div 100 mod 10) + k div 10 mod 10) + k mod 10
         = k"
proof -
  have a: "k div 1000 mod 10 = k div 1000" using assms by simp
  have b: "10 * (k div 1000) + k div 100 mod 10 = k div 100"
    using mult_div_mod_eq[of 10 "k div 100"] by (simp add: div_mult2_eq[symmetric])
  have c: "10 * (k div 100) + k div 10 mod 10 = k div 10"
    using mult_div_mod_eq[of 10 "k div 10"] by (simp add: div_mult2_eq[symmetric])
  have d: "10 * (k div 10) + k mod 10 = k"
    by (rule mult_div_mod_eq)
  show ?thesis by (simp only: a b c d)
qed

lemma toString_four:
  assumes "1000 \<le> n" "n \<le> 9999"
  shows "length (toString n) = 4 \<and> list_all isDigit (toString n)
         \<and> hd (toString n) \<noteq> CHR ''0''"
proof -
  let ?k = "nat n"
  have k: "1000 \<le> ?k" "?k < 10000" using assms by auto
  then have "1 \<le> ?k div 1000" "?k div 1000 \<le> 9" by auto
  then have "digitChar (?k div 1000) \<noteq> CHR ''0''" by (rule digitChar_nonzero)
  moreover have "toString n = digits ?k" using assms by (simp add: toString_def)
  ultimately show ?thesis
    by (simp add: digits_four[OF k] digitChar_isDigit)
qed

lemma parse_toString:
  assumes "1000 \<le> n" "n \<le> 9999"
  shows "int (parseDecimal (toString n)) = n"
proof -
  let ?k = "nat n"
  have k: "1000 \<le> ?k" "?k < 10000" using assms by auto
  have "toString n = digits ?k" using assms by (simp add: toString_def)
  then have "parseDecimal (toString n) = ?k"
    using decimal_expansion[OF k(2)]
    by (simp add: digits_four[OF k] parseDecimal_def digitValue_digitChar)
  then show ?thesis using assms by simp
qed

lemma otpString_half: "otpString (1 / 2) = ''5500''"
  by (simp add: otpString_def otpNumber_half toString_def digits.simps digitChar_def)

text \<open>
  C8. \<^verbatim>\<open>Math.random()\<close> returns a double in \<open>[0, 1)\<close>, so a value from 0 to
  \<open>1 - 1 / 2 ^ 53\<close>, the largest double below 1. For every such value, and with every
  operation rounded as the machine rounds it, the code that \<open>generateResetOTP\<close> and
  \<open>generateVerificationOTP\<close> issue is a string of exactly four decimal digits whose first
  digit is not zero and which denotes a number from 1000 to 9999; the method returns that
  plain code, stores in the challenge's hash field the bcrypt hash of the code (the same
  \<open>bc_hash\<close> the password hook uses), stores as expiry the clock plus \<open>10 * 60 * 1000\<close>
  milliseconds, and changes no other field.
\<close>

theorem otp_issue:
  assumes "0 \<le> random w" and "random w \<le> 1 - 1 / 2 ^ 53"
  shows "length (otpString (random w)) = 4
         \<and> list_all isDigit (otpString (random w))
         \<and> hd (otpString (random w)) \<noteq> CHR ''0''
         \<and> 1000 \<le> int (parseDecimal (otpString (random w)))
         \<and> int (parseDecimal (otpString (random w))) \<le> 9999
         \<and> generateResetOTP d w this =
             (otpString (random w),
              this\<lparr>resetPasswordOTP := Some (bc_hash d (otpString (random w)) (otpSalt w)),
                   resetPasswordExpire := Some (now w + 10 * 60 * 1000),
                   modifiedPaths := ResetPasswordExpire # ResetPasswordOTP # modifiedPaths this\<rparr>)
         \<and> generateVerificationOTP d w this =
             (otpString (random w),
              this\<lparr>verificationOTP := Some (bc_hash d (otpString (random w)) (otpSalt w)),
                   verificationOTPExpire := Some (now w + 10 * 60 * 1000),
                   modifiedPaths :=
                     VerificationOTPExpire # VerificationOTP # modifiedPaths this\<rparr>)"
proof -
  note r = otpNumber_range[OF assms]
  have four: "length (otpString (random w)) = 4 \<and> list_all isDigit (otpString (random w))
              \<and> hd (otpString (random w)) \<noteq> CHR ''0''"
    unfolding otpString_def using r by (intro toString_four) simp_all
  have val: "int (parseDecimal (otpString (random w))) = otpNumber (random w)"
    unfolding otpString_def using r by (intro parse_toString) simp_all
  have gen1: "generateResetOTP d w this =
             (otpString (random w),
              this\<lparr>resetPasswordOTP := Some (bc_hash d (otpString (random w)) (otpSalt w)),
                   resetPasswordExpire := Some (now w + 10 * 60 * 1000),
                   modifiedPaths := ResetPasswordExpire # ResetPasswordOTP # modifiedPaths this\<rparr>)"
    by (simp add: generateResetOTP_def markModified_def Let_def)
  have gen2: "generateVerificationOTP d w this =
             (otpString (random w),
              this\<lparr>verificationOTP := Some (bc_hash d (otpString (random w)) (otpSalt w)),
                   verificationOTPExpire := Some (now w + 10 * 60 * 1000),
                   modifiedPaths :=
                     VerificationOTPExpire # VerificationOTP # modifiedPaths this\<rparr>)"
    by (simp add: generateVerificationOTP_def markModified_def Let_def)
  show ?thesis using four val r gen1 gen2 by simp
qed

theorem otp_issue_witness:
  "0 \<le> random demoWorld \<and> random demoWorld \<le> 1 - 1 / 2 ^ 53
   \<and> otpString (random demoWorld) = ''5500''
   \<and> list_all isDigit ''5500''
   \<and> int (parseDecimal ''5500'') \<le> 9999
   \<and> fst (generateResetOTP demoDeps demoWorld (hydrate [] alice)) = ''5500''
   \<and> resetPasswordExpire (snd (generateResetOTP demoDeps demoWorld (hydrate [] alice)))
       = Some 1600000"
proof -
  have h1: "0 \<le> random demoWorld" by (simp add: demoWorld_def)
  have h2: "random demoWorld \<le> 1 - 1 / 2 ^ 53" by (simp add: demoWorld_def)
  have s: "otpString (random demoWorld) = ''5500''"
    by (simp add: demoWorld_def otpString_half)
  have n: "now demoWorld + 10 * 60 * 1000 = 1600000" by (simp add: demoWorld_def)
  from otp_issue[OF h1 h2, of demoDeps "hydrate [] alice"] h1 h2 s n
  show ?thesis by simp
qed

section \<open>The collection\<close>

lemma findOne_email: "findOne st e = Some u \<Longrightarrow> email u = e"
  unfolding findOne_def by (auto simp: find_Some_iff)

lemma findOne_map:
  assumes "\<And>u. email (f u) = email u"
  shows "findOne (map f st) e = map_option f (findOne st e)"
  unfolding findOne_def using assms by (induction st) auto

lemma findOne_append_new:
  assumes "\<not> list_ex (\<lambda>u. email u = e) st" and "email v = e"
  shows "findOne (st @ [v]) e = Some v"
  using assms unfolding findOne_def by (induction st) auto

lemma findByIdAndDelete_last:
  assumes "\<not> list_ex (\<lambda>u. uid u = i) st" and "uid v = i"
  shows "findByIdAndDelete i (st @ [v]) = st"
  using assms by (induction st) auto

lemma map_unrelated:
  assumes "\<not> list_ex (\<lambda>u. uid u = i) st"
  shows "map (\<lambda>u. if uid u = i then f u else u) st = st"
  using assms by (induction st) auto

section \<open>Verifying a code\<close>

text \<open>
  C3, as the code has it. \<open>verifyResetOTP\<close> and \<open>verifyVerificationOTP\<close> return false when
  the challenge's hash is absent, and return false whenever the clock is strictly after
  the stored expiry, whatever bcrypt would say of the candidate: the expiry test comes
  first, so a code past its expiry never verifies even when it is the code that was
  issued. Up to and including the expiry instant itself the answer is bcrypt's verdict
  on the candidate against the stored hash. At the routes, a code presented after the
  expiry is answered 400 ``Invalid or expired OTP'' by reset-password, verify-otp and
  verify-email, and the collection is left as it was.
\<close>

theorem otp_expiry:
  "(resetPasswordOTP this = None \<longrightarrow> \<not> verifyResetOTP d w this c)
   \<and> (verificationOTP this = None \<longrightarrow> \<not> verifyVerificationOTP d w this c)
   \<and> (resetPasswordExpire this = Some x \<and> now w > x \<longrightarrow> \<not> verifyResetOTP d w this c)
   \<and> (verificationOTPExpire this = Some y \<and> now w > y \<longrightarrow>
        \<not> verifyVerificationOTP d w this c)
   \<and> (resetPasswordExpire this = Some x \<and> now w \<le> x \<longrightarrow>
        verifyResetOTP d w this c = (bcrypt_compare d c (resetPasswordOTP this) = Inr True))
   \<and> (verificationOTPExpire this = Some y \<and> now w \<le> y \<longrightarrow>
        verifyVerificationOTP d w this c = (bcrypt_compare d c (verificationOTP this) = Inr True))
   \<and> (findOne st em = Some u \<and> resetPasswordExpire u = Some x \<and> now w > x \<longrightarrow>
        resetPassword d w st em c np = (reply 400 False ''Invalid or expired OTP'', st)
        \<and> verifyOtp d w st em c = (reply 400 False ''Invalid or expired OTP'', st))
   \<and> (findOne st em = Some u \<and> \<not> isVerified u \<and> verificationOTPExpire u = Some y \<and> now w > y
        \<longrightarrow> verifyEmail d w st em c = (reply 400 False ''Invalid or expired OTP'', st))"
proof -
  have methods:
    "(resetPasswordOTP this = None \<longrightarrow> \<not> verifyResetOTP d w this c)
   \<and> (verificationOTP this = None \<longrightarrow> \<not> verifyVerificationOTP d w this c)
   \<and> (resetPasswordExpire this = Some x \<and> now w > x \<longrightarrow> \<not> verifyResetOTP d w this c)
   \<and> (verificationOTPExpire this = Some y \<and> now w > y \<longrightarrow>
        \<not> verifyVerificationOTP d w this c)
   \<and> (resetPasswordExpire this = Some x \<and> now w \<le> x \<longrightarrow>
        verifyResetOTP d w this c = (bcrypt_compare d c (resetPasswordOTP this) = Inr True))
   \<and> (verificationOTPExpire this = Some y \<and> now w \<le> y \<longrightarrow>
        verifyVerificationOTP d w this c = (bcrypt_compare d c (verificationOTP this) = Inr True))"
    by (auto simp: verifyResetOTP_def verifyVerificationOTP_def bcrypt_compare_def
        dateNowAfter_def split: sum.splits option.splits jsvalue.splits)
  have reset: "resetPassword d w st em c np = (reply 400 False ''Invalid or expired OTP'', st)
        \<and> verifyOtp d w st em c = (reply 400 False ''Invalid or expired OTP'', st)"
    if "findOne st em = Some u" "resetPasswordExpire u = Some x" "now w > x"
    using that
    by (simp add: resetPassword_def verifyOtp_def verifyResetOTP_def dateNowAfter_def hydrate_def
        user.defs Let_def)
  have verify: "verifyEmail d w st em c = (reply 400 False ''Invalid or expired OTP'', st)"
    if "findOne st em = Some u" "\<not> isVerified u" "verificationOTPExpire u = Some y" "now w > y"
    using that
    by (simp add: verifyEmail_def verifyVerificationOTP_def dateNowAfter_def hydrate_def
        user.defs Let_def)
  show ?thesis using methods reset verify by blast
qed

text \<open>The theorem at concrete inputs: a challenge that was not loaded, and a correct code
  one millisecond before and one millisecond after the expiry.\<close>

theorem otp_expiry_witness:
  "resetPasswordOTP (hydrate [] alice) = None
   \<and> \<not> verifyResetOTP demoDeps demoWorld (hydrate [] alice) (JString ''5500'')
   \<and> verificationOTP (hydrate [] bob) = None
   \<and> \<not> verifyVerificationOTP demoDeps demoWorld (hydrate [] bob) (JString ''5500'')
   \<and> resetPasswordExpire (hydrate [ResetPasswordOTP, ResetPasswordExpire] alice) = Some 1600000
   \<and> \<not> verifyResetOTP demoDeps (demoWorld\<lparr>now := 1600001\<rparr>)
        (hydrate [ResetPasswordOTP, ResetPasswordExpire] alice) (JString ''5500'')
   \<and> verifyResetOTP demoDeps (demoWorld\<lparr>now := 1599999\<rparr>)
        (hydrate [ResetPasswordOTP, ResetPasswordExpire] alice) (JString ''5500'')
   \<and> verificationOTPExpire (hydrate [VerificationOTP, VerificationOTPExpire] bob) = Some 1600000
   \<and> \<not> verifyVerificationOTP demoDeps (demoWorld\<lparr>now := 1600001\<rparr>)
        (hydrate [VerificationOTP, VerificationOTPExpire] bob) (JString ''5500'')
   \<and> verifyVerificationOTP demoDeps (demoWorld\<lparr>now := 1599999\<rparr>)
        (hydrate [VerificationOTP, VerificationOTPExpire] bob) (JString ''5500'')
   \<and> findOne [alice, bob] ''known@x.com'' = Some alice
   \<and> resetPassword demoDeps (demoWorld\<lparr>now := 1600001\<rparr>) [alice, bob] ''known@x.com'' (JString ''5500'')
        ''newpass1'' = (reply 400 False ''Invalid or expired OTP'', [alice, bob])
   \<and> findOne [alice, bob] ''b@x.com'' = Some bob
   \<and> verifyEmail demoDeps (demoWorld\<lparr>now := 1600001\<rparr>) [alice, bob] ''b@x.com'' (JString ''5500'')
       = (reply 400 False ''Invalid or expired OTP'', [alice, bob])"
proof -
  let ?late = "demoWorld\<lparr>now := 1600001\<rparr>"
  let ?early = "demoWorld\<lparr>now := 1599999\<rparr>"
  let ?a = "hydrate [ResetPasswordOTP, ResetPasswordExpire] alice"
  let ?b = "hydrate [VerificationOTP, VerificationOTPExpire] bob"
  have p1: "resetPasswordOTP (hydrate [] alice) = None"
    and p2: "verificationOTP (hydrate [] bob) = None"
    and p3: "resetPasswordExpire ?a = Some 1600000"
    and p4: "verificationOTPExpire ?b = Some 1600000"
    and p5: "findOne [alice, bob] ''known@x.com'' = Some alice"
    and p6: "findOne [alice, bob] ''b@x.com'' = Some bob"
    and p7: "resetPasswordExpire alice = Some 1600000"
    and p8: "verificationOTPExpire bob = Some 1600000" "\<not> isVerified bob"
    by (simp_all add: store_defs demo_defs)
  have t: "now ?late > 1600000" "now ?early \<le> 1600000" by simp_all
  have c1: "bcrypt_compare demoDeps (JString ''5500'') (resetPasswordOTP ?a) = Inr True"
    and c2: "bcrypt_compare demoDeps (JString ''5500'') (verificationOTP ?b) = Inr True"
    by (simp_all add: user_model_defs store_defs demo_defs)
  have r1: "\<not> verifyResetOTP demoDeps demoWorld (hydrate [] alice) (JString ''5500'')"
    using otp_expiry[of "hydrate [] alice" demoDeps demoWorld "JString ''5500''" 0 0 "[]" "[]" alice "[]"] p1
    by blast
  have r2: "\<not> verifyVerificationOTP demoDeps demoWorld (hydrate [] bob) (JString ''5500'')"
    using otp_expiry[of "hydrate [] bob" demoDeps demoWorld "JString ''5500''" 0 0 "[]" "[]" alice "[]"] p2
    by blast
  have r3: "\<not> verifyResetOTP demoDeps ?late ?a (JString ''5500'')
            \<and> resetPassword demoDeps ?late [alice, bob] ''known@x.com'' (JString ''5500'') ''newpass1''
                = (reply 400 False ''Invalid or expired OTP'', [alice, bob])"
    using otp_expiry[of ?a demoDeps ?late "JString ''5500''" 1600000 0 "[alice, bob]" "''known@x.com''"
            alice "''newpass1''"] p3 p5 p7 t(1)
    by blast
  have r4: "\<not> verifyVerificationOTP demoDeps ?late ?b (JString ''5500'')
            \<and> verifyEmail demoDeps ?late [alice, bob] ''b@x.com'' (JString ''5500'')
                = (reply 400 False ''Invalid or expired OTP'', [alice, bob])"
    using otp_expiry[of ?b demoDeps ?late "JString ''5500''" 0 1600000 "[alice, bob]" "''b@x.com''"
            bob "[]"] p4 p6 p8 t(1)
    by blast
  have r5: "verifyResetOTP demoDeps ?early ?a (JString ''5500'')"
    using otp_expiry[of ?a demoDeps ?early "JString ''5500''" 1600000 0 "[]" "[]" alice "[]"] p3 t(2) c1
    by blast
  have r6: "verifyVerificationOTP demoDeps ?early ?b (JString ''5500'')"
    using otp_expiry[of ?b demoDeps ?early "JString ''5500''" 0 1600000 "[]" "[]" alice "[]"] p4 t(2) c2
    by blast
  show ?thesis
    using r1 r2 r3 r4 r5 r6 p1 p2 p3 p4 p5 p6 by simp
qed

text \<open>The claim as stated asks for false whenever \<open>now \<ge> expiresAt\<close>. At
  \<open>now = expiresAt\<close> the test \<^verbatim>\<open>Date.now() > this.resetPasswordExpire\<close> is false and the
  correct code still verifies.\<close>

theorem otp_expiry_counterexample:
  "resetPasswordExpire alice = Some 1600000
   \<and> now (demoWorld\<lparr>now := 1600000\<rparr>) = 1600000
   \<and> verifyResetOTP demoDeps (demoWorld\<lparr>now := 1600000\<rparr>)
        (hydrate [ResetPasswordOTP, ResetPasswordExpire] alice) (JString ''5500'')"
  by (simp add: user_model_defs store_defs demo_defs)

section \<open>Passwords and login\<close>

text \<open>
  C6, as the code has it. \<open>comparePassword\<close> returns bcrypt's verdict when the comparison
  completes. When the comparison raises, whatever the error, \<open>comparePassword\<close> does not
  return false: it raises \<^verbatim>\<open>Error('Password comparison failed')\<close> to its caller, and
  login then answers 500 ``Error logging in'' and leaves the collection as it was.
\<close>

theorem comparePassword_raises:
  "(bcrypt_compare d c (password this) = Inr b \<longrightarrow> comparePassword d this c = Inr b)
   \<and> (bcrypt_compare d c (password this) = Inl e \<longrightarrow>
        comparePassword d this c = Inl (Error ''Password comparison failed''))
   \<and> (findOne st em = Some u \<and> bcrypt_compare d c (password u) = Inl e \<longrightarrow>
        login d w st em c =
          (replyError ''Error logging in'' (Error ''Password comparison failed''), st))"
  by (simp add: comparePassword_def login_def hydrate_def user.defs Let_def)

theorem comparePassword_raises_witness:
  "bcrypt_compare demoDeps (JString ''oldpass1'') (password (hydrate [Password] alice)) = Inr True
   \<and> comparePassword demoDeps (hydrate [Password] alice) (JString ''oldpass1'') = Inr True
   \<and> bcrypt_compare demoDeps (JString ''oldpass1'') (password (hydrate [] alice)) = Inl IllegalArguments
   \<and> comparePassword demoDeps (hydrate [] alice) (JString ''oldpass1'')
       = Inl (Error ''Password comparison failed'')
   \<and> findOne [alice] ''known@x.com'' = Some alice
   \<and> bcrypt_compare (demoDeps\<lparr>bc_compare := \<lambda>s h. Inl (Error ''Invalid salt version'')\<rparr>)
        (JString ''oldpass1'') (password alice) = Inl (Error ''Invalid salt version'')
   \<and> login (demoDeps\<lparr>bc_compare := \<lambda>s h. Inl (Error ''Invalid salt version'')\<rparr>) demoWorld
        [alice] ''known@x.com'' (JString ''oldpass1'')
       = (replyError ''Error logging in'' (Error ''Password comparison failed''), [alice])"
proof -
  let ?bad = "demoDeps\<lparr>bc_compare := \<lambda>s h. Inl (Error ''Invalid salt version'')\<rparr>"
  have p1: "bcrypt_compare demoDeps (JString ''oldpass1'') (password (hydrate [Password] alice)) = Inr True"
    and p2: "bcrypt_compare demoDeps (JString ''oldpass1'') (password (hydrate [] alice))
             = Inl IllegalArguments"
    and p3: "findOne [alice] ''known@x.com'' = Some alice"
    and p4: "bcrypt_compare ?bad (JString ''oldpass1'') (password alice) = Inl (Error ''Invalid salt version'')"
    by (simp_all add: user_model_defs store_defs demo_defs)
  note A = comparePassword_raises[of demoDeps "JString ''oldpass1''" "hydrate [Password] alice" True]
  note B = comparePassword_raises[of demoDeps "JString ''oldpass1''" "hydrate [] alice" _ IllegalArguments]
  note C = comparePassword_raises[of ?bad "JString ''oldpass1''" _ _ "Error ''Invalid salt version''"
              "[alice]" "''known@x.com''" alice demoWorld]
  show ?thesis using A B C p1 p2 p3 p4 by blast
qed

text \<open>The claim as stated asks for false on an internal error. On a document loaded
  without its password, bcrypt rejects the \<^verbatim>\<open>undefined\<close> hash and \<open>comparePassword\<close>
  raises.\<close>

theorem comparePassword_counterexample:
  "password (hydrate [] alice) = None
   \<and> comparePassword demoDeps (hydrate [] alice) (JString ''oldpass1'')
       = Inl (Error ''Password comparison failed'')"
  by (simp add: user_model_defs store_defs demo_defs)

text \<open>
  C4. When the email matches an account that is not verified and the password compares
  equal to the stored hash, login answers 403 ``Email not verified. Please verify your
  email.'' with the data \<^verbatim>\<open>{needsVerification: true, email}\<close>, carrying the account's email;
  the response holds no session token, is not the 401 ``Invalid email or password'' of
  invalid credentials, and the collection is left as it was.
\<close>

theorem login_not_verified:
  assumes "findOne st em = Some u" and "\<not> isVerified u"
    and "password u = Some h" and "bc_compare d pw h = Inr True"
  shows "login d w st em (JString pw) =
           (replyData 403 False ''Email not verified. Please verify your email.''
              (NeedsVerification True em), st)
         \<and> issuedToken (fst (login d w st em (JString pw))) = None
         \<and> status (fst (login d w st em (JString pw))) \<noteq> 401
         \<and> json_message (fst (login d w st em (JString pw))) \<noteq> ''Invalid email or password''"
proof -
  have "email u = em" using assms(1) by (rule findOne_email)
  then show ?thesis using assms
    by (simp add: login_def user_model_defs hydrate_def user.defs reply_defs
        issuedToken_def)
qed

theorem login_not_verified_witness:
  "findOne [alice, bob] ''b@x.com'' = Some bob \<and> \<not> isVerified bob
   \<and> password bob = Some (demoHash ''pass123'' ''saltsalt'')
   \<and> bc_compare demoDeps ''pass123'' (demoHash ''pass123'' ''saltsalt'') = Inr True
   \<and> login demoDeps demoWorld [alice, bob] ''b@x.com'' (JString ''pass123'') =
       (replyData 403 False ''Email not verified. Please verify your email.''
          (NeedsVerification True ''b@x.com''), [alice, bob])
   \<and> issuedToken (fst (login demoDeps demoWorld [alice, bob] ''b@x.com'' (JString ''pass123''))) = None"
proof -
  have p1: "findOne [alice, bob] ''b@x.com'' = Some bob" and p2: "\<not> isVerified bob"
    and p3: "password bob = Some (demoHash ''pass123'' ''saltsalt'')"
    and p4: "bc_compare demoDeps ''pass123'' (demoHash ''pass123'' ''saltsalt'') = Inr True"
    by (simp_all add: store_defs demo_defs)
  from login_not_verified[OF p1 p2 p3 p4, of demoWorld] p1 p2 p3 p4
  show ?thesis by blast
qed




section \<open>Resetting a password\<close>

lemma verifyOtp_store: "snd (verifyOtp d w st em otp) = st"
  by (simp add: verifyOtp_def Let_def split: option.splits)

lemma resetPassword_ok:
  assumes "findOne st em = Some u"
    and "resetPasswordOTP u = Some h" and "h \<noteq> []"
    and "\<not> dateNowAfter (now w) (resetPasswordExpire u)"
    and "bcrypt_compare d otp (Some h) = Inr True"
    and "6 \<le> length np"
  shows "resetPassword d w st em otp np =
           (reply 200 True ''Password reset successful. You can now login with your new password.'',
            map (\<lambda>v. if uid v = uid u then afterReset d w np v else v) st)"
proof -
  have np: "np \<noteq> []" using assms(6) by auto
  have len: "\<not> length np < 6" using assms(6) by simp
  show ?thesis using assms(1-5) np len
    by (simp add: resetPassword_def falsy_def verifyResetOTP_def dateNowAfter_def isModified_def
        markModified_def pre_save_def hydrate_def validatePassword_def
        save_def user.defs document.defs Let_def afterReset_def)
qed

lemma findOne_afterReset:
  assumes "findOne st em = Some u"
  shows "findOne (map (\<lambda>v. if uid v = uid u then afterReset d w np v else v) st) em
         = Some (afterReset d w np u)"
proof -
  have "\<And>v. email (if uid v = uid u then afterReset d w np v else v) = email v"
    by (simp add: afterReset_def)
  then show ?thesis using assms by (simp add: findOne_map)
qed

text \<open>
  C7. Take an account with a reset challenge whose hash is present and whose expiry has
  not passed, a code that bcrypt accepts against that hash, and a new password of at
  least six characters. Then reset-password answers 200; the stored account is the old
  one with the password replaced by the bcrypt hash of the new password (the hook runs
  because the password path was assigned) and with the reset hash and expiry cleared.
  Afterwards \<open>comparePassword\<close> accepts the new password, and rejects the old one provided
  bcrypt tells the old password from the new hash; and reset-password with the same code,
  at any time and with any new password, answers 400 ``Invalid or expired OTP'' and
  changes nothing.
\<close>

theorem reset_password_flow:
  assumes "findOne st em = Some u"
    and "resetPasswordOTP u = Some h" and "h \<noteq> []"
    and "resetPasswordExpire u = Some x" and "now w \<le> x"
    and "bc_compare d otp h = Inr True"
    and "6 \<le> length np"
    and "bc_compare d np (bc_hash d np (passwordSalt w)) = Inr True"
    and "bc_compare d old (bc_hash d np (passwordSalt w)) = Inr False"
  shows "fst (resetPassword d w st em (JString otp) np) =
           reply 200 True ''Password reset successful. You can now login with your new password.''
         \<and> findOne (snd (resetPassword d w st em (JString otp) np)) em = Some (afterReset d w np u)
         \<and> password (afterReset d w np u) = Some (bc_hash d np (passwordSalt w))
         \<and> resetPasswordOTP (afterReset d w np u) = None
         \<and> resetPasswordExpire (afterReset d w np u) = None
         \<and> comparePassword d (hydrate [Password] (afterReset d w np u)) (JString np) = Inr True
         \<and> comparePassword d (hydrate [Password] (afterReset d w np u)) (JString old) = Inr False
         \<and> resetPassword d w' (snd (resetPassword d w st em (JString otp) np)) em (JString otp) np' =
             (reply 400 False ''Invalid or expired OTP'', snd (resetPassword d w st em (JString otp) np))"
proof -
  let ?st' = "map (\<lambda>v. if uid v = uid u then afterReset d w np v else v) st"
  have ex: "\<not> dateNowAfter (now w) (resetPasswordExpire u)"
    using assms(4,5) by (simp add: dateNowAfter_def)
  have cmp: "bcrypt_compare d (JString otp) (Some h) = Inr True"
    using assms(6) by (simp add: bcrypt_compare_def)
  note r = resetPassword_ok[OF assms(1-3) ex cmp assms(7)]
  note f = findOne_afterReset[OF assms(1), of d w np]
  have flds: "password (afterReset d w np u) = Some (bc_hash d np (passwordSalt w))"
    "resetPasswordOTP (afterReset d w np u) = None"
    "resetPasswordExpire (afterReset d w np u) = None"
    by (simp_all add: afterReset_def)
  have c1: "comparePassword d (hydrate [Password] (afterReset d w np u)) (JString np) = Inr True"
    using assms(8)
    by (simp add: comparePassword_def bcrypt_compare_def hydrate_def afterReset_def user.defs)
  have c2: "comparePassword d (hydrate [Password] (afterReset d w np u)) (JString old) = Inr False"
    using assms(9)
    by (simp add: comparePassword_def bcrypt_compare_def hydrate_def afterReset_def user.defs)
  have again: "resetPassword d w' ?st' em (JString otp) np' = (reply 400 False ''Invalid or expired OTP'', ?st')"
    by (simp add: resetPassword_def f falsy_def hydrate_def afterReset_def user.defs)
  show ?thesis using r f flds c1 c2 again by simp
qed

theorem reset_password_flow_witness:
  "findOne [alice, bob] ''known@x.com'' = Some alice
   \<and> resetPasswordOTP alice = Some (demoHash ''5500'' ''pepperpe'')
   \<and> demoHash ''5500'' ''pepperpe'' \<noteq> []
   \<and> resetPasswordExpire alice = Some 1600000 \<and> now demoWorld \<le> 1600000
   \<and> bc_compare demoDeps ''5500'' (demoHash ''5500'' ''pepperpe'') = Inr True
   \<and> 6 \<le> length ''newpass1''
   \<and> bc_compare demoDeps ''newpass1'' (bc_hash demoDeps ''newpass1'' (passwordSalt demoWorld))
       = Inr True
   \<and> bc_compare demoDeps ''oldpass1'' (bc_hash demoDeps ''newpass1'' (passwordSalt demoWorld))
       = Inr False
   \<and> comparePassword demoDeps (hydrate [Password] alice) (JString ''oldpass1'') = Inr True
   \<and> status (fst (resetPassword demoDeps demoWorld [alice, bob] ''known@x.com'' (JString ''5500'')
                    ''newpass1'')) = 200
   \<and> comparePassword demoDeps
        (hydrate [Password] (afterReset demoDeps demoWorld ''newpass1'' alice))
        (JString ''newpass1'')
       = Inr True
   \<and> comparePassword demoDeps
        (hydrate [Password] (afterReset demoDeps demoWorld ''newpass1'' alice))
        (JString ''oldpass1'')
       = Inr False
   \<and> fst (resetPassword demoDeps demoWorld
         (snd (resetPassword demoDeps demoWorld [alice, bob] ''known@x.com'' (JString ''5500'')
                 ''newpass1''))
         ''known@x.com'' (JString ''5500'') ''newpass1'')
       = reply 400 False ''Invalid or expired OTP''"
proof -
  have p1: "findOne [alice, bob] ''known@x.com'' = Some alice"
    and p2: "resetPasswordOTP alice = Some (demoHash ''5500'' ''pepperpe'')"
    and p3: "demoHash ''5500'' ''pepperpe'' \<noteq> []"
    and p4: "resetPasswordExpire alice = Some 1600000"
    and p5: "now demoWorld \<le> 1600000"
    and p6: "bc_compare demoDeps ''5500'' (demoHash ''5500'' ''pepperpe'') = Inr True"
    and p7: "6 \<le> length ''newpass1''"
    and p8: "bc_compare demoDeps ''newpass1''
               (bc_hash demoDeps ''newpass1'' (passwordSalt demoWorld)) = Inr True"
    and p9: "bc_compare demoDeps ''oldpass1''
               (bc_hash demoDeps ''newpass1'' (passwordSalt demoWorld)) = Inr False"
    and p10: "comparePassword demoDeps (hydrate [Password] alice) (JString ''oldpass1'') = Inr True"
    by (simp_all add: user_model_defs store_defs demo_defs)
  note T = reset_password_flow[OF p1 p2 p3 p4 p5 p6 p7 p8 p9, of demoWorld "''newpass1''"]
  have s: "status (fst (resetPassword demoDeps demoWorld [alice, bob] ''known@x.com'' (JString ''5500'')
                    ''newpass1'')) = 200"
    using T by (simp add: reply_def)
  show ?thesis using T s p1 p2 p3 p4 p5 p6 p7 p8 p9 p10 by simp
qed

text \<open>
  C10. verify-otp never writes: whatever it answers, the collection it leaves is the one
  it was given, so a second verify-otp gets the answer it would have got on the original
  collection. In particular, when verify-otp answered 200 for a code, reset-password with
  that code and a new password of at least six characters, at a time when the stored
  expiry has not passed, answers 200.
\<close>

theorem verifyOtp_read_only:
  "snd (verifyOtp d w st em otp) = st
   \<and> verifyOtp d w2 (snd (verifyOtp d w st em otp)) em otp = verifyOtp d w2 st em otp
   \<and> (findOne st em = Some u \<and> \<not> dateNowAfter (now w') (resetPasswordExpire u)
        \<and> 6 \<le> length np \<and> status (fst (verifyOtp d w st em otp)) = 200
      \<longrightarrow> fst (resetPassword d w' (snd (verifyOtp d w st em otp)) em otp np) =
            reply 200 True
              ''Password reset successful. You can now login with your new password.'')"
proof -
  have a: "snd (verifyOtp d w st em otp) = st" by (rule verifyOtp_store)
  have b: "fst (resetPassword d w' st em otp np) =
            reply 200 True
              ''Password reset successful. You can now login with your new password.''"
    if u: "findOne st em = Some u" and ex: "\<not> dateNowAfter (now w') (resetPasswordExpire u)"
      and len: "6 \<le> length np" and ok: "status (fst (verifyOtp d w st em otp)) = 200"
  proof -
    from ok u obtain h where h: "resetPasswordOTP u = Some h" "h \<noteq> []"
      by (auto simp: verifyOtp_def falsy_def hydrate_def user.defs reply_def Let_def
          split: if_splits)
    from ok u h have "verifyResetOTP d w (hydrate [ResetPasswordOTP, ResetPasswordExpire] u) otp"
      by (auto simp: verifyOtp_def falsy_def hydrate_def user.defs reply_def Let_def
          split: if_splits)
    then have cmp: "bcrypt_compare d otp (Some h) = Inr True" using h
      by (auto simp: verifyResetOTP_def hydrate_def user.defs split: if_splits sum.splits)
    show ?thesis using resetPassword_ok[OF u h ex cmp len] by simp
  qed
  show ?thesis using a b by simp
qed

theorem verifyOtp_read_only_witness:
  "findOne [alice, bob] ''known@x.com'' = Some alice
   \<and> \<not> dateNowAfter (now (demoWorld\<lparr>now := 1500000\<rparr>)) (resetPasswordExpire alice)
   \<and> 6 \<le> length ''newpass1''
   \<and> verifyOtp demoDeps demoWorld [alice, bob] ''known@x.com'' (JString ''5500'')
       = (reply 200 True ''OTP verified successfully'', [alice, bob])
   \<and> status (fst (verifyOtp demoDeps demoWorld [alice, bob] ''known@x.com'' (JString ''5500''))) = 200
   \<and> fst (resetPassword demoDeps (demoWorld\<lparr>now := 1500000\<rparr>)
         (snd (verifyOtp demoDeps demoWorld [alice, bob] ''known@x.com'' (JString ''5500'')))
         ''known@x.com'' (JString ''5500'') ''newpass1'')
       = reply 200 True ''Password reset successful. You can now login with your new password.''"
proof -
  have p1: "findOne [alice, bob] ''known@x.com'' = Some alice"
    and p2: "\<not> dateNowAfter (now (demoWorld\<lparr>now := 1500000\<rparr>)) (resetPasswordExpire alice)"
    and p3: "6 \<le> length ''newpass1''"
    by (simp_all add: user_model_defs store_defs demo_defs)
  have p4: "verifyOtp demoDeps demoWorld [alice, bob] ''known@x.com'' (JString ''5500'')
       = (reply 200 True ''OTP verified successfully'', [alice, bob])"
    by (simp add: verifyOtp_def falsy_def user_model_defs store_defs demo_defs)
  have p5: "status (fst (verifyOtp demoDeps demoWorld [alice, bob] ''known@x.com'' (JString ''5500''))) = 200"
    unfolding p4 by (simp add: reply_def)
  from verifyOtp_read_only[of demoDeps demoWorld "[alice, bob]" "''known@x.com''" "JString ''5500''"
      demoWorld alice "demoWorld\<lparr>now := 1500000\<rparr>" "''newpass1''"] p1 p2 p3 p4 p5
  show ?thesis by simp
qed

text \<open>
  C2 asks forgot-password to answer the same whether or not the email matches an
  account and whether or not the delivery succeeds. The handler's comment on the
  no-account branch says the same (``Don't reveal if user exists or not''), but the
  response is a function of exactly those two facts: the generic message when no account
  matches, another message with the email as data when one matches and the delivery
  succeeds, and a 500 when one matches and the delivery fails. The three runs at the end,
  on the same email, get three different responses.
\<close>

theorem forgot_password_distinguishes:
  "fst (forgotPassword d w st em) =
     (case findOne st em of
        None \<Rightarrow> reply 200 True ''If an account exists with this email, an OTP has been sent''
      | Some u \<Rightarrow>
          (case sendMail w of
             Inr mid \<Rightarrow>
               replyData 200 True ''OTP sent to your email. Valid for 10 minutes.'' (EmailData em)
           | Inl msg \<Rightarrow> reply 500 False ''Error sending email. Please try again later.''))
   \<and> fst (forgotPassword demoDeps demoWorld [] ''known@x.com'') =
     reply 200 True ''If an account exists with this email, an OTP has been sent''
   \<and> fst (forgotPassword demoDeps demoWorld [alice] ''known@x.com'') =
     replyData 200 True ''OTP sent to your email. Valid for 10 minutes.''
       (EmailData ''known@x.com'')
   \<and> fst (forgotPassword demoDeps (demoWorld\<lparr>sendMail := Inl ''ECONNREFUSED''\<rparr>) [alice]
           ''known@x.com'') =
     reply 500 False ''Error sending email. Please try again later.''"
proof -
  have general: "fst (forgotPassword d w st em) =
     (case findOne st em of
        None \<Rightarrow> reply 200 True ''If an account exists with this email, an OTP has been sent''
      | Some u \<Rightarrow>
          (case sendMail w of
             Inr mid \<Rightarrow>
               replyData 200 True ''OTP sent to your email. Valid for 10 minutes.'' (EmailData em)
           | Inl msg \<Rightarrow> reply 500 False ''Error sending email. Please try again later.''))"
    for d w st em
    by (simp add: forgotPassword_def Let_def generateResetOTP_def markModified_def save_def
        validatePassword_def pre_save_def isModified_def hydrate_def user.defs document.defs
        sendPasswordResetEmail_def split: option.splits sum.splits)
  have f0: "findOne [] ''known@x.com'' = None"
    and f1: "findOne [alice] ''known@x.com'' = Some alice"
    by (simp_all add: findOne_def alice_def)
  have m0: "sendMail demoWorld = Inr ''msg-1''"
    and m1: "sendMail (demoWorld\<lparr>sendMail := Inl ''ECONNREFUSED''\<rparr>) = Inl ''ECONNREFUSED''"
    by (simp_all add: demoWorld_def)
  show ?thesis
    by (simp add: general f0 f1 m0 m1)
qed

section \<open>Signing up\<close>

lemma create_Inr:
  assumes "create d w em pw nm False st = Inr (user0, st1)"
  shows "st1 = st @ [user.truncate user0]
         \<and> user0 = \<lparr>uid = newId w, email = toLowerCase (trim em),
                password = Some (bc_hash d pw (passwordSalt w)), name = trim nm,
                isVerified = False, verificationOTP = None, verificationOTPExpire = None,
                resetPasswordOTP = None, resetPasswordExpire = None, createdAt = createdNow w,
                modifiedPaths = []\<rparr>
         \<and> \<not> list_ex (\<lambda>u. uid u = newId w) st
         \<and> \<not> list_ex (\<lambda>u. email u = toLowerCase (trim em)) st"
  using assms
  by (auto simp: create_def Let_def validatePassword_def pre_save_def isModified_def list_ex_iff
      user.defs split: if_splits option.splits sum.splits)

lemma signup_created:
  assumes "findOne st em = None"
    and "create d w em pw (signupName bn em) False st = Inr c"
  shows "signup d w st em pw bn =
           (replyData 201 True
              ''User registered. Please check your email for the verification code.''
              (SignupData (toLowerCase (trim em)) False),
            st @ [newUser d w em pw (signupName bn em)])"
proof -
  obtain user0 st1 where c: "c = (user0, st1)" by (cases c)
  note cr = create_Inr[OF assms(2)[unfolded c]]
  have nodup: "\<not> list_ex (\<lambda>u. uid u = newId w) st" using cr by simp
  have ok: "success (sendVerificationEmail w em otp nm)" for otp nm
    by (simp add: sendVerificationEmail_def split: sum.splits)
  show ?thesis
    using assms(1) assms(2)[unfolded c] cr
    by (simp add: signup_def Let_def generateVerificationOTP_def markModified_def
        save_def validatePassword_def pre_save_def isModified_def user.defs document.defs
        newUser_def map_unrelated[OF nodup] ok)
qed

lemma signup_201:
  assumes "status (fst (signup d w st em pw bn)) = 201"
  shows "findOne st em = None \<and> (\<exists>c. create d w em pw (signupName bn em) False st = Inr c)"
proof (cases "findOne st em")
  case (Some a)
  then show ?thesis using assms by (simp add: signup_def reply_defs)
next
  case None
  show ?thesis
  proof (cases "create d w em pw (signupName bn em) False st")
    case (Inl e)
    then show ?thesis using None assms by (simp add: signup_def Let_def reply_defs)
  next
    case (Inr c)
    then show ?thesis using None by simp
  qed
qed

lemma pre_save_sendMail: "pre_save d (w\<lparr>sendMail := a\<rparr>) this = pre_save d w this"
  by (simp add: pre_save_def split: option.splits)

lemma create_sendMail:
  "create d (w\<lparr>sendMail := a\<rparr>) em pw nm v st = create d w em pw nm v st"
  unfolding create_def pre_save_sendMail by simp

lemma signup_sendMail:
  "signup d (w\<lparr>sendMail := a\<rparr>) st em pw bn = signup d w st em pw bn"
proof (cases "findOne st em")
  case (Some u)
  then show ?thesis by (simp add: signup_def)
next
  case None
  show ?thesis
  proof (cases "create d w em pw (signupName bn em) False st")
    case (Inl e)
    then show ?thesis using None by (simp add: signup_def create_sendMail)
  next
    case (Inr c)
    then have "create d (w\<lparr>sendMail := a\<rparr>) em pw (signupName bn em) False st = Inr c"
      by (simp add: create_sendMail)
    from signup_created[OF None this] signup_created[OF None Inr]
    show ?thesis by (simp add: newUser_def)
  qed
qed

lemma upper_not_space:
  assumes "\<not> isSpace c"
  shows "\<not> isSpace (case map_of (zip lowerLetters upperLetters) c of Some u \<Rightarrow> u | None \<Rightarrow> c)"
proof (cases "map_of (zip lowerLetters upperLetters) c")
  case None
  then show ?thesis using assms by simp
next
  case (Some u)
  then have "u \<in> set upperLetters" by (meson map_of_SomeD set_zip_rightD)
  then have "\<not> isSpace u" by (auto simp: upperLetters_def isSpace_def)
  then show ?thesis using Some by simp
qed

lemma trim_no_space:
  assumes "\<not> list_ex isSpace s"
  shows "trim s = s"
proof -
  have a: "dropWhile isSpace s = s" using assms by (cases s) auto
  have "\<not> list_ex isSpace (rev s)" using assms by (simp add: list_ex_iff)
  then have b: "dropWhile isSpace (rev s) = rev s" by (cases "rev s") auto
  show ?thesis by (simp add: trim_def a b)
qed

lemma trim_toUpperCase:
  assumes "\<not> list_ex isSpace s"
  shows "trim (toUpperCase s) = toUpperCase s"
proof -
  have "\<not> list_ex isSpace (toUpperCase s)"
    using assms upper_not_space by (auto simp: list_ex_iff toUpperCase_def)
  then show ?thesis by (rule trim_no_space)
qed

text \<open>
  C1 asks that a failed delivery of the verification email deletes the new account and
  fails the signup, and the handler says the same: its comment reads ``If email fails,
  delete user to allow retry'', its rollback deletes the account and answers 500 when the
  mailer reports \<^verbatim>\<open>success: false\<close>, and the mailer of forgot-password reports exactly
  that when the transport throws. But \<open>sendVerificationEmail\<close> reports \<^verbatim>\<open>success: true\<close>
  whatever the transport answers, so the answer of signup and the collection it leaves do
  not depend on the transport at all. In the run below the transport refuses the
  connection: signup answers 201, the unverified account stays in the collection, and the
  retry the rollback was written for is answered 400 ``User with this email already
  exists''.
\<close>

theorem signup_failed_delivery_keeps_account:
  "success (sendVerificationEmail w em otp nm)
   \<and> signup d (w\<lparr>sendMail := Inl msg\<rparr>) st em pw bn = signup d (w\<lparr>sendMail := Inr mid\<rparr>) st em pw bn
   \<and> sendMail (demoWorld\<lparr>sendMail := Inl ''ECONNREFUSED''\<rparr>) = Inl ''ECONNREFUSED''
   \<and> findOne [] ''b@x.com'' = None
   \<and> fst (signup demoDeps (demoWorld\<lparr>sendMail := Inl ''ECONNREFUSED''\<rparr>) []
             ''b@x.com'' ''pass123'' None)
       = replyData 201 True
           ''User registered. Please check your email for the verification code.''
           (SignupData ''b@x.com'' False)
   \<and> map email (snd (signup demoDeps (demoWorld\<lparr>sendMail := Inl ''ECONNREFUSED''\<rparr>) []
                    ''b@x.com'' ''pass123'' None)) = [''b@x.com'']
   \<and> map isVerified (snd (signup demoDeps (demoWorld\<lparr>sendMail := Inl ''ECONNREFUSED''\<rparr>) []
                    ''b@x.com'' ''pass123'' None)) = [False]
   \<and> fst (signup demoDeps (demoWorld\<lparr>sendMail := Inl ''ECONNREFUSED''\<rparr>)
             (snd (signup demoDeps (demoWorld\<lparr>sendMail := Inl ''ECONNREFUSED''\<rparr>) []
                     ''b@x.com'' ''pass123'' None))
             ''b@x.com'' ''pass123'' None)
       = reply 400 False ''User with this email already exists''"
proof -
  let ?w = "demoWorld\<lparr>sendMail := Inl ''ECONNREFUSED''\<rparr>"
  have ok: "success (sendVerificationEmail w em otp nm)" for w em otp nm
    by (simp add: sendVerificationEmail_def split: sum.splits)
  have indep: "signup d (w\<lparr>sendMail := Inl msg\<rparr>) st em pw bn
               = signup d (w\<lparr>sendMail := Inr mid\<rparr>) st em pw bn"
    by (simp add: signup_sendMail)
  have run: "signup demoDeps ?w [] ''b@x.com'' ''pass123'' None =
      (replyData 201 True
           ''User registered. Please check your email for the verification code.''
           (SignupData ''b@x.com'' False),
       [newUser demoDeps ?w ''b@x.com'' ''pass123'' ''B''])"
    by (simp add: signup_def signupName_def Let_def string_defs user_model_defs store_defs
        demo_defs sendVerificationEmail_def otpString_half newUser_def)
  have flds: "email (newUser demoDeps ?w ''b@x.com'' ''pass123'' ''B'') = ''b@x.com''"
    "isVerified (newUser demoDeps ?w ''b@x.com'' ''pass123'' ''B'') = False"
    by (simp_all add: newUser_def string_defs)
  have retry: "fst (signup demoDeps ?w [newUser demoDeps ?w ''b@x.com'' ''pass123'' ''B'']
                      ''b@x.com'' ''pass123'' None)
               = reply 400 False ''User with this email already exists''"
    by (simp add: signup_def findOne_def flds)
  have m: "sendMail ?w = Inl ''ECONNREFUSED''" by simp
  have f: "findOne [] ''b@x.com'' = None" by (simp add: findOne_def)
  show ?thesis unfolding run using ok indep m f flds retry by simp
qed

text \<open>
  C9, as the code has it. When a signup without a name creates an account (it answered
  201), the account appended to the collection has as name the text of the email before
  the at-sign, converted to upper case and trimmed by the schema; for an ASCII email whose
  local part has no white space that is exactly the upper-cased local part.
\<close>

theorem signup_default_name:
  assumes "status (fst (signup d w st em pw None)) = 201"
  shows "snd (signup d w st em pw None) =
           st @ [newUser d w em pw (toUpperCase (splitAtSignFirst em))]
         \<and> name (last (snd (signup d w st em pw None))) =
             trim (toUpperCase (splitAtSignFirst em))
         \<and> (isAscii em \<and> \<not> list_ex isSpace (splitAtSignFirst em) \<longrightarrow>
              name (last (snd (signup d w st em pw None))) =
                toUpperCase (splitAtSignFirst em))"
proof -
  have nm: "signupName None em = toUpperCase (splitAtSignFirst em)"
    by (simp add: signupName_def)
  from signup_201[OF assms] obtain c
    where n: "findOne st em = None"
      and cr: "create d w em pw (signupName None em) False st = Inr c"
    by blast
  have a: "snd (signup d w st em pw None) =
           st @ [newUser d w em pw (toUpperCase (splitAtSignFirst em))]"
    unfolding signup_created[OF n cr] by (simp add: nm)
  have b: "name (last (snd (signup d w st em pw None))) =
             trim (toUpperCase (splitAtSignFirst em))"
    unfolding a by (simp add: newUser_def)
  have c: "name (last (snd (signup d w st em pw None))) = toUpperCase (splitAtSignFirst em)"
    if "\<not> list_ex isSpace (splitAtSignFirst em)"
    using b trim_toUpperCase[OF that] by simp
  show ?thesis using a b c by blast
qed

theorem signup_default_name_witness:
  "status (fst (signup demoDeps demoWorld [alice] ''b@x.com'' ''pass123'' None)) = 201
   \<and> isAscii ''b@x.com'' \<and> \<not> list_ex isSpace (splitAtSignFirst ''b@x.com'')
   \<and> map name (snd (signup demoDeps demoWorld [alice] ''b@x.com'' ''pass123'' None))
       = [''Alice'', ''B'']
   \<and> name (last (snd (signup demoDeps demoWorld [alice] ''b@x.com'' ''pass123'' None))) = ''B''"
proof -
  have p1: "status (fst (signup demoDeps demoWorld [alice] ''b@x.com'' ''pass123'' None)) = 201"
    by (simp add: signup_def signupName_def Let_def string_defs user_model_defs
        store_defs demo_defs reply_defs sendVerificationEmail_def otpString_half)
  have p2: "isAscii ''b@x.com''" "\<not> list_ex isSpace (splitAtSignFirst ''b@x.com'')"
    by (simp_all add: isAscii_def string_defs)
  have up: "toUpperCase (splitAtSignFirst ''b@x.com'') = ''B''"
    by (simp add: string_defs)
  have al: "name alice = ''Alice''" by (simp add: alice_def)
  note T = signup_default_name[OF p1]
  have r0: "name (last (snd (signup demoDeps demoWorld [alice] ''b@x.com'' ''pass123'' None)))
            = toUpperCase (splitAtSignFirst ''b@x.com'')"
    using T p2 by blast
  have r1: "name (last (snd (signup demoDeps demoWorld [alice] ''b@x.com'' ''pass123'' None)))
            = ''B''"
    using r0 unfolding up .
  have s: "snd (signup demoDeps demoWorld [alice] ''b@x.com'' ''pass123'' None) =
           [alice] @ [newUser demoDeps demoWorld ''b@x.com'' ''pass123''
                        (toUpperCase (splitAtSignFirst ''b@x.com''))]"
    using T by blast
  have r2: "map name (snd (signup demoDeps demoWorld [alice] ''b@x.com'' ''pass123'' None))
       = [''Alice'', ''B'']"
    using r1 unfolding s by (simp add: al)
  show ?thesis using p1 p2 r1 r2 by blast
qed

text \<open>The claim as stated asks for the local part itself. For \<^verbatim>\<open>b@x.com\<close> the local
  part is \<^verbatim>\<open>b\<close> and the stored name is \<^verbatim>\<open>B\<close>.\<close>

theorem signup_default_name_counterexample:
  "status (fst (signup demoDeps demoWorld [] ''b@x.com'' ''pass123'' None)) = 201
   \<and> map name (snd (signup demoDeps demoWorld [] ''b@x.com'' ''pass123'' None)) = [''B'']
   \<and> splitAtSignFirst ''b@x.com'' = ''b''"
  by (simp add: signup_def signupName_def Let_def string_defs user_model_defs
      store_defs demo_defs reply_defs sendVerificationEmail_def otpString_half)

end
